theory Spec2Isabelle
  imports Complex_Main
begin

section \<open>Python values, records and errors\<close>

text \<open>
  A transaction is a Python \<^verbatim>\<open>dict\<close> from field names to values. The scorers read
  fields with \<^verbatim>\<open>transaction.get(key, default)\<close> and compare them with integer
  literals, so the model keeps the dynamic type of every value: an \<^verbatim>\<open>int\<close>, a
  \<^verbatim>\<open>float\<close>, a \<^verbatim>\<open>bool\<close>, a \<^verbatim>\<open>str\<close> or \<^verbatim>\<open>None\<close> (what
  \<^verbatim>\<open>csv.DictReader\<close> stores for a column that a short row lacks). A float is its exact
  value (Python compares a float with an int exactly) or one of the two infinities or NaN.
  Strings are byte lists (UTF-8).
\<close>

datatype pyfloat = FVal rat | FInf | FNegInf | FNaN

datatype pyval = PInt int | PFloat pyfloat | PBool bool | PStr string | PNone

text \<open>
  What a scorer is handed: a dict, or some other value (an element of an uploaded list
  that is not a mapping). Only a dict has the method \<^verbatim>\<open>get\<close>.
\<close>

datatype pyobj = Dict "string \<rightharpoonup> pyval" | Scalar pyval

datatype error = TypeError | AttributeError | KeyError

definition bindE :: "error + 'a \<Rightarrow> ('a \<Rightarrow> error + 'b) \<Rightarrow> error + 'b" where
  "bindE x f = (case x of Inl e \<Rightarrow> Inl e | Inr v \<Rightarrow> f v)"

text \<open>\<^verbatim>\<open>obj.get(key, default)\<close>: AttributeError when \<^verbatim>\<open>obj\<close> is not a dict.\<close>

fun py_get :: "pyobj \<Rightarrow> string \<Rightarrow> pyval \<Rightarrow> error + pyval" where
  "py_get (Dict d) key dflt = Inr (case d key of None \<Rightarrow> dflt | Some v \<Rightarrow> v)"
| "py_get (Scalar v) key dflt = Inl AttributeError"

text \<open>
  \<^verbatim>\<open>v > c\<close>, \<^verbatim>\<open>v < c\<close> and \<^verbatim>\<open>v == c\<close> for an integer literal \<^verbatim>\<open>c\<close>. Ordering a
  \<^verbatim>\<open>str\<close> or \<^verbatim>\<open>None\<close> against an \<^verbatim>\<open>int\<close> raises TypeError; equality never
  raises. A bool is the int 0 or 1; every comparison with NaN is False.
\<close>

fun py_gt :: "pyval \<Rightarrow> int \<Rightarrow> error + bool" where
  "py_gt (PInt i) c = Inr (i > c)"
| "py_gt (PBool b) c = Inr ((if b then 1 else 0) > c)"
| "py_gt (PFloat (FVal r)) c = Inr (r > of_int c)"
| "py_gt (PFloat FInf) c = Inr True"
| "py_gt (PFloat FNegInf) c = Inr False"
| "py_gt (PFloat FNaN) c = Inr False"
| "py_gt (PStr s) c = Inl TypeError"
| "py_gt PNone c = Inl TypeError"

fun py_lt :: "pyval \<Rightarrow> int \<Rightarrow> error + bool" where
  "py_lt (PInt i) c = Inr (i < c)"
| "py_lt (PBool b) c = Inr ((if b then 1 else 0) < c)"
| "py_lt (PFloat (FVal r)) c = Inr (r < of_int c)"
| "py_lt (PFloat FInf) c = Inr False"
| "py_lt (PFloat FNegInf) c = Inr True"
| "py_lt (PFloat FNaN) c = Inr False"
| "py_lt (PStr s) c = Inl TypeError"
| "py_lt PNone c = Inl TypeError"

fun py_eq :: "pyval \<Rightarrow> int \<Rightarrow> bool" where
  "py_eq (PInt i) c = (i = c)"
| "py_eq (PBool b) c = ((if b then 1 else 0) = c)"
| "py_eq (PFloat (FVal r)) c = (r = of_int c)"
| "py_eq (PFloat f) c = False"
| "py_eq (PStr s) c = False"
| "py_eq PNone c = False"

text \<open>\<^verbatim>\<open>i >= v\<close> for an \<^verbatim>\<open>int\<close> \<open>i\<close> and any value \<^verbatim>\<open>v\<close>.\<close>

fun py_int_ge :: "int \<Rightarrow> pyval \<Rightarrow> error + bool" where
  "py_int_ge i (PInt j) = Inr (i \<ge> j)"
| "py_int_ge i (PBool b) = Inr (i \<ge> (if b then 1 else 0))"
| "py_int_ge i (PFloat (FVal r)) = Inr (of_int i \<ge> r)"
| "py_int_ge i (PFloat FInf) = Inr False"
| "py_int_ge i (PFloat FNegInf) = Inr True"
| "py_int_ge i (PFloat FNaN) = Inr False"
| "py_int_ge i (PStr s) = Inl TypeError"
| "py_int_ge i PNone = Inl TypeError"

subsection \<open>Formatting\<close>

text \<open>
  \<^verbatim>\<open>str(i)\<close> for a non-negative index, \<^verbatim>\<open>f'{i:06d}'\<close> (zero-padded to a width of at
  least six) and the \<^verbatim>\<open>{v}\<close> of an f-string. The decimal text of a float is Python's
  shortest round-trip representation, which is outside this development: it is the
  parameter \<open>float_str\<close> wherever a float can be printed.
\<close>

definition digit_char :: "nat \<Rightarrow> char" where
  "digit_char d = ''0123456789'' ! d"

fun str_nat :: "nat \<Rightarrow> string" where
  "str_nat n = (if n < 10 then [digit_char n] else str_nat (n div 10) @ [digit_char (n mod 10)])"

declare str_nat.simps [simp del]

definition str_int :: "int \<Rightarrow> string" where
  "str_int i = (if i < 0 then CHR ''-'' # str_nat (nat (- i)) else str_nat (nat i))"

definition format_06d :: "nat \<Rightarrow> string" where
  "format_06d i = replicate (6 - length (str_nat i)) CHR ''0'' @ str_nat i"

fun py_format :: "(pyfloat \<Rightarrow> string) \<Rightarrow> pyval \<Rightarrow> string" where
  "py_format float_str (PInt i) = str_int i"
| "py_format float_str (PBool b) = (if b then ''True'' else ''False'')"
| "py_format float_str (PFloat f) = float_str f"
| "py_format float_str (PStr s) = s"
| "py_format float_str PNone = ''None''"

subsection \<open>Result records\<close>

text \<open>
  The scorers return dicts with fixed keys. Every result carries the three verdict
  fields; the other keys differ from scorer to scorer.
\<close>

record verdict =
  risk_score :: int
  risk_level :: string
  suggested_action :: string

record breakdown =
  rule_engine_score :: int
  ml_probability :: rat
  anomaly_score :: int

record demo_result = verdict +
  explanations :: "string list"

record app_result = demo_result +
  breakdown :: breakdown

record predict_result = verdict +
  rules_triggered :: "string list"

record simple_row = verdict +
  transaction_id :: pyval

record demo_row = simple_row +
  top_reason :: string

record app_row = demo_row +
  amount :: pyval

section \<open>Risk levels\<close>

text \<open>
  \<^verbatim>\<open>config.py\<close>, \<^verbatim>\<open>RISK_LEVELS\<close>: the declared score bands, as (low, high) pairs.
\<close>

definition RISK_LEVELS :: "(string \<times> int \<times> int) list" where
  "RISK_LEVELS = [(''LOW'', (0, 40)), (''MEDIUM'', (40, 70)), (''HIGH'', (70, 100))]"

text \<open>
  The \<^verbatim>\<open># Determine risk level\<close> chain of \<^verbatim>\<open>app.py\<close> (lines 159-168) and
  \<^verbatim>\<open>04_run_demo.py\<close> (lines 49-58), the same text in both: the level and the action
  for a score. At this point of the program the score is an \<^verbatim>\<open>int\<close>.
\<close>

definition determine_risk_level :: "int \<Rightarrow> string \<times> string" where
  "determine_risk_level score =
     (if score \<ge> 70 then (''HIGH'', ''BLOCK - Requires additional verification'')
      else if score \<ge> 40 then (''MEDIUM'', ''WARN - Review recommended'')
      else (''LOW'', ''ALLOW - Appears legitimate''))"

section \<open>The fallback scorer of app.py\<close>

text \<open>The rupee sign as the bytes that stand in \<^verbatim>\<open>app.py\<close> (a re-encoded U+20B9).\<close>

definition rupee_app :: string where
  "rupee_app = [CHR 0xE2, CHR 0x80, CHR 0x9A, CHR 0xC3, CHR 0x87, CHR 0xCF, CHR 0x80]"

text \<open>
  \<^verbatim>\<open>FallbackScorer.calculate_final_score\<close>, lines 127-180. The four commented blocks
  update the pair (score, reasons) in turn; each is one function on that pair.
\<close>

definition rule1_amount :: "pyobj \<Rightarrow> int \<times> string list \<Rightarrow> error + int \<times> string list" where
  "rule1_amount transaction st = (case st of (score, reasons) \<Rightarrow>
     bindE (py_get transaction ''amount'' (PInt 0)) (\<lambda>amount.
     bindE (py_gt amount 50000) (\<lambda>gt50.
       if gt50 then Inr (score + 40, reasons @ [''Amount > '' @ rupee_app @ ''50,000''])
       else bindE (py_gt amount 10000) (\<lambda>gt10.
         if gt10 then Inr (score + 30, reasons @ [''Amount > '' @ rupee_app @ ''10,000''])
         else Inr (score, reasons)))))"

definition rule2_time :: "pyobj \<Rightarrow> int \<times> string list \<Rightarrow> error + int \<times> string list" where
  "rule2_time transaction st = (case st of (score, reasons) \<Rightarrow>
     bindE (py_get transaction ''hour'' (PInt 12)) (\<lambda>hour.
     bindE (py_lt hour 6) (\<lambda>lt6.
       if lt6 then Inr (score + 25, reasons @ [''Late night transaction (12AM-6AM)''])
       else Inr (score, reasons))))"

definition rule3_velocity ::
  "(pyfloat \<Rightarrow> string) \<Rightarrow> pyobj \<Rightarrow> int \<times> string list \<Rightarrow> error + int \<times> string list" where
  "rule3_velocity float_str transaction st = (case st of (score, reasons) \<Rightarrow>
     bindE (py_get transaction ''txns_last_1h'' (PInt 0)) (\<lambda>txns_last_1h.
     bindE (py_gt txns_last_1h 5) (\<lambda>gt5.
       if gt5 then Inr (score + 30, reasons @
         [''High velocity ('' @ py_format float_str txns_last_1h @ '' transactions/hour)''])
       else Inr (score, reasons))))"

definition rule4_new_recipient :: "pyobj \<Rightarrow> int \<times> string list \<Rightarrow> error + int \<times> string list" where
  "rule4_new_recipient transaction st = (case st of (score, reasons) \<Rightarrow>
     bindE (py_get transaction ''is_new_recipient'' (PInt 0)) (\<lambda>is_new_recipient.
       if py_eq is_new_recipient 1
       then Inr (score + 25, reasons @ [''First time sending to this recipient''])
       else Inr (score, reasons)))"

text \<open>Lines 128-155: the score and the reasons before the cap.\<close>

definition apply_rules_app :: "(pyfloat \<Rightarrow> string) \<Rightarrow> pyobj \<Rightarrow> error + int \<times> string list" where
  "apply_rules_app float_str transaction =
     bindE (rule1_amount transaction (0, [])) (\<lambda>st.
     bindE (rule2_time transaction st) (\<lambda>st.
     bindE (rule3_velocity float_str transaction st) (\<lambda>st.
     rule4_new_recipient transaction st)))"

definition calculate_final_score_app :: "(pyfloat \<Rightarrow> string) \<Rightarrow> pyobj \<Rightarrow> error + app_result" where
  "calculate_final_score_app float_str transaction =
     bindE (apply_rules_app float_str transaction) (\<lambda>(score, reasons).
       let score = min score 100;
           (level, action) = determine_risk_level score
       in Inr \<lparr>risk_score = score, risk_level = level, suggested_action = action,
               explanations = reasons,
               breakdown = \<lparr>rule_engine_score = score, ml_probability = 1 / 2,
                            anomaly_score = 0\<rparr>\<rparr>)"

text \<open>
  \<^verbatim>\<open>FallbackScorer.analyze_batch\<close>, lines 182-194: the loop over
  \<^verbatim>\<open>enumerate(transactions)\<close>, with the index and the list of results so far. Nothing
  catches an exception of the loop body.
\<close>

definition top_reason_of :: "string list \<Rightarrow> string" where
  "top_reason_of expl = (case expl of [] \<Rightarrow> ''No specific risk factors'' | r # _ \<Rightarrow> r)"

fun analyze_batch_app_loop ::
  "(pyfloat \<Rightarrow> string) \<Rightarrow> nat \<Rightarrow> pyobj list \<Rightarrow> app_row list \<Rightarrow> error + app_row list" where
  "analyze_batch_app_loop float_str i [] results = Inr results"
| "analyze_batch_app_loop float_str i (txn # rest) results =
     bindE (calculate_final_score_app float_str txn) (\<lambda>result.
     bindE (py_get txn ''transaction_id'' (PStr (''TXN_'' @ format_06d i))) (\<lambda>tid.
     bindE (py_get txn ''amount'' (PInt 0)) (\<lambda>amt.
       analyze_batch_app_loop float_str (Suc i) rest (results @
         [\<lparr>risk_score = risk_score result, risk_level = risk_level result,
           suggested_action = suggested_action result, transaction_id = tid,
           top_reason = top_reason_of (explanations result), amount = amt\<rparr>]))))"

definition analyze_batch_app :: "(pyfloat \<Rightarrow> string) \<Rightarrow> pyobj list \<Rightarrow> error + app_row list" where
  "analyze_batch_app float_str transactions = analyze_batch_app_loop float_str 0 transactions []"

section \<open>The fallback scorer of scripts/04_run_demo.py\<close>

definition rupee :: string where
  "rupee = [CHR 0xE2, CHR 0x82, CHR 0xB9]"

text \<open>
  \<^verbatim>\<open>FallbackScorer.__init__\<close>, lines 28-36: \<^verbatim>\<open>self.rules\<close>, a list of
  (description, condition, points). The class is local to \<^verbatim>\<open>create_fallback_scorer\<close>
  and nothing assigns \<^verbatim>\<open>self.rules\<close> again, so the list is a constant.
\<close>

type_synonym demo_rule = "string \<times> (pyobj \<Rightarrow> error + bool) \<times> int"

definition FallbackScorer_rules :: "demo_rule list" where
  "FallbackScorer_rules =
    [(''Amount > '' @ rupee @ ''50,000'',
        \<lambda>x. bindE (py_get x ''amount'' (PInt 0)) (\<lambda>v. py_gt v 50000), 40),
     (''Amount > '' @ rupee @ ''10,000'',
        \<lambda>x. bindE (py_get x ''amount'' (PInt 0)) (\<lambda>v. py_gt v 10000), 30),
     (''Late night (12AM-6AM)'',
        \<lambda>x. bindE (py_get x ''hour'' (PInt 12)) (\<lambda>v. py_lt v 6), 25),
     (''Suspicious hours (10PM-12AM)'',
        \<lambda>x. bindE (py_get x ''hour'' (PInt 12)) (\<lambda>v. py_gt v 22), 20),
     (''New recipient'',
        \<lambda>x. bindE (py_get x ''is_new_recipient'' (PInt 0)) (\<lambda>v. Inr (py_eq v 1)), 25),
     (''High velocity'',
        \<lambda>x. bindE (py_get x ''txns_last_1h'' (PInt 0)) (\<lambda>v. py_gt v 5), 30)]"

text \<open>Lines 39-45: the loop over the rules, on the pair (score, reasons).\<close>

fun run_rules_demo ::
  "demo_rule list \<Rightarrow> pyobj \<Rightarrow> int \<times> string list \<Rightarrow> error + int \<times> string list" where
  "run_rules_demo [] transaction st = Inr st"
| "run_rules_demo ((desc, condition, points) # rs) transaction (score, reasons) =
     bindE (condition transaction) (\<lambda>fires.
       if fires then run_rules_demo rs transaction (score + points, reasons @ [desc])
       else run_rules_demo rs transaction (score, reasons))"

text \<open>Lines 38-65; \<^verbatim>\<open>reasons[:3]\<close> is \<open>take 3\<close>.\<close>

definition calculate_final_score_demo :: "pyobj \<Rightarrow> error + demo_result" where
  "calculate_final_score_demo transaction =
     bindE (run_rules_demo FallbackScorer_rules transaction (0, [])) (\<lambda>(score, reasons).
       let score = min score 100;
           (level, action) = determine_risk_level score
       in Inr \<lparr>risk_score = score, risk_level = level, suggested_action = action,
               explanations = take 3 reasons\<rparr>)"

text \<open>Lines 67-78.\<close>

fun analyze_batch_demo_loop :: "nat \<Rightarrow> pyobj list \<Rightarrow> demo_row list \<Rightarrow> error + demo_row list" where
  "analyze_batch_demo_loop i [] results = Inr results"
| "analyze_batch_demo_loop i (txn # rest) results =
     bindE (calculate_final_score_demo txn) (\<lambda>result.
     bindE (py_get txn ''transaction_id'' (PStr (''TXN_'' @ str_nat i))) (\<lambda>tid.
       analyze_batch_demo_loop (Suc i) rest (results @
         [\<lparr>risk_score = risk_score result, risk_level = risk_level result,
           suggested_action = suggested_action result, transaction_id = tid,
           top_reason = top_reason_of (explanations result)\<rparr>])))"

definition analyze_batch_demo :: "pyobj list \<Rightarrow> error + demo_row list" where
  "analyze_batch_demo transactions = analyze_batch_demo_loop 0 transactions []"

section \<open>The rule-based detector of scripts/03_train_models.py\<close>

text \<open>
  A rule is a dict with the keys \<^verbatim>\<open>condition\<close>, \<^verbatim>\<open>score\<close> and \<^verbatim>\<open>description\<close>; a
  detector is an object with the attributes \<^verbatim>\<open>rules\<close> and \<^verbatim>\<open>thresholds\<close>. The
  detector is pickled by the training script and loaded again by the callers, so
  \<^verbatim>\<open>predict\<close> takes the object it runs on. The thresholds are a dict whose values
  \<^verbatim>\<open>predict\<close> compares with the score, so they are values of any of the types above.
\<close>

record rule =
  condition :: "pyobj \<Rightarrow> error + bool"
  score :: int
  description :: string

record detector =
  rules :: "rule list"
  thresholds :: "string \<rightharpoonup> pyval"

text \<open>Lines 33-46, the methods \<^verbatim>\<open>_check_...\<close>.\<close>

definition check_amount_gt_50000 :: "pyobj \<Rightarrow> error + bool" where
  "check_amount_gt_50000 transaction =
     bindE (py_get transaction ''amount'' (PInt 0)) (\<lambda>v. py_gt v 50000)"

definition check_amount_gt_10000 :: "pyobj \<Rightarrow> error + bool" where
  "check_amount_gt_10000 transaction =
     bindE (py_get transaction ''amount'' (PInt 0)) (\<lambda>v. py_gt v 10000)"

definition check_hour_lt_6 :: "pyobj \<Rightarrow> error + bool" where
  "check_hour_lt_6 transaction =
     bindE (py_get transaction ''hour'' (PInt 12)) (\<lambda>v. py_lt v 6)"

definition check_hour_gt_22 :: "pyobj \<Rightarrow> error + bool" where
  "check_hour_gt_22 transaction =
     bindE (py_get transaction ''hour'' (PInt 12)) (\<lambda>v. py_gt v 22)"

definition check_amount_log_gt_12 :: "pyobj \<Rightarrow> error + bool" where
  "check_amount_log_gt_12 transaction =
     bindE (py_get transaction ''amount_log'' (PInt 0)) (\<lambda>v. py_gt v 12)"

text \<open>\<^verbatim>\<open>RuleBasedFraudDetector.__init__\<close>, lines 16-30.\<close>

definition RuleBasedFraudDetector_init :: detector where
  "RuleBasedFraudDetector_init =
    \<lparr>rules =
      [\<lparr>condition = check_amount_gt_50000, score = 40,
         description = ''Amount > '' @ rupee @ ''50,000''\<rparr>,
       \<lparr>condition = check_amount_gt_10000, score = 30,
         description = ''Amount > '' @ rupee @ ''10,000''\<rparr>,
       \<lparr>condition = check_hour_lt_6, score = 25,
         description = ''Transaction during late night (12AM-6AM)''\<rparr>,
       \<lparr>condition = check_hour_gt_22, score = 20,
         description = ''Transaction during suspicious hours (10PM-12AM)''\<rparr>,
       \<lparr>condition = check_amount_log_gt_12, score = 35,
         description = ''Exceptionally high amount''\<rparr>],
     thresholds = [''HIGH'' \<mapsto> PInt 70, ''MEDIUM'' \<mapsto> PInt 40, ''LOW'' \<mapsto> PInt 0]\<rparr>"

text \<open>\<^verbatim>\<open>d[key]\<close>: KeyError when the key is absent.\<close>

definition py_index :: "('k \<rightharpoonup> 'v) \<Rightarrow> 'k \<Rightarrow> error + 'v" where
  "py_index d key = (case d key of None \<Rightarrow> Inl KeyError | Some v \<Rightarrow> Inr v)"

text \<open>\<^verbatim>\<open>predict\<close>, lines 48-77: the loop of lines 53-56, then the cap and the level.\<close>

fun run_rules_predict ::
  "rule list \<Rightarrow> pyobj \<Rightarrow> int \<times> string list \<Rightarrow> error + int \<times> string list" where
  "run_rules_predict [] transaction st = Inr st"
| "run_rules_predict (r # rs) transaction (total_score, triggered_rules) =
     bindE (condition r transaction) (\<lambda>fires.
       if fires
       then run_rules_predict rs transaction (total_score + score r, triggered_rules @ [description r])
       else run_rules_predict rs transaction (total_score, triggered_rules))"

definition predict :: "detector \<Rightarrow> pyobj \<Rightarrow> error + predict_result" where
  "predict self transaction =
     bindE (run_rules_predict (rules self) transaction (0, [])) (\<lambda>(total_score, triggered_rules).
       let total_score = min total_score 100 in
       bindE (bindE (py_index (thresholds self) ''HIGH'') (\<lambda>high.
              bindE (py_int_ge total_score high) (\<lambda>ge_high.
                if ge_high
                then Inr (''HIGH'', ''BLOCK - Requires additional verification'')
                else bindE (py_index (thresholds self) ''MEDIUM'') (\<lambda>medium.
                  bindE (py_int_ge total_score medium) (\<lambda>ge_medium.
                    if ge_medium then Inr (''MEDIUM'', ''WARN - Review recommended'')
                    else Inr (''LOW'', ''ALLOW - Appears legitimate''))))))
         (\<lambda>(level, action).
            Inr \<lparr>risk_score = total_score, risk_level = level, suggested_action = action,
                 rules_triggered = triggered_rules\<rparr>))"

text \<open>\<^verbatim>\<open>SimpleScorer\<close>, lines 79-96: a wrapper around the detector.\<close>

record simple_scorer =
  model :: detector

definition calculate_final_score_simple :: "simple_scorer \<Rightarrow> pyobj \<Rightarrow> error + predict_result" where
  "calculate_final_score_simple self transaction = predict (model self) transaction"

fun analyze_batch_simple_loop ::
  "simple_scorer \<Rightarrow> nat \<Rightarrow> pyobj list \<Rightarrow> simple_row list \<Rightarrow> error + simple_row list" where
  "analyze_batch_simple_loop self i [] results = Inr results"
| "analyze_batch_simple_loop self i (txn # rest) results =
     bindE (predict (model self) txn) (\<lambda>result.
     bindE (py_get txn ''transaction_id'' (PStr (''TXN_'' @ str_nat i))) (\<lambda>tid.
       analyze_batch_simple_loop self (Suc i) rest (results @
         [\<lparr>risk_score = risk_score result, risk_level = risk_level result,
           suggested_action = suggested_action result, transaction_id = tid\<rparr>])))"

definition analyze_batch_simple :: "simple_scorer \<Rightarrow> pyobj list \<Rightarrow> error + simple_row list" where
  "analyze_batch_simple self transactions = analyze_batch_simple_loop self 0 transactions []"

section \<open>Notions used to state the properties\<close>

text \<open>
  A rule fires on a transaction when its condition returns \<^verbatim>\<open>True\<close> there (the test
  \<^verbatim>\<open>if condition(transaction)\<close> of the two loops).
\<close>

definition fires_demo :: "pyobj \<Rightarrow> demo_rule \<Rightarrow> bool" where
  "fires_demo transaction r = (case r of (desc, cond, points) \<Rightarrow> cond transaction = Inr True)"

definition fires :: "pyobj \<Rightarrow> rule \<Rightarrow> bool" where
  "fires transaction r = (condition r transaction = Inr True)"

text \<open>
  The reading of a declared band (low, high) that the specification gives: low is
  included, high is excluded, except that the band ending at 100 includes 100.
\<close>

definition in_band :: "int \<Rightarrow> string \<times> int \<times> int \<Rightarrow> bool" where
  "in_band s b = (case b of (name, lo, hi) \<Rightarrow> lo \<le> s \<and> (s < hi \<or> (hi = 100 \<and> s = 100)))"

text \<open>
  A field is not a number when it is present with a \<^verbatim>\<open>str\<close> value or with
  \<^verbatim>\<open>None\<close>; an absent field, an \<^verbatim>\<open>int\<close>, a \<^verbatim>\<open>float\<close> and a \<^verbatim>\<open>bool\<close>
  are the other cases. The three fields that the scorers of \<^verbatim>\<open>app.py\<close> and
  \<^verbatim>\<open>04_run_demo.py\<close> compare with \<open><\<close> or \<open>>\<close> are \<^verbatim>\<open>amount\<close>, \<^verbatim>\<open>hour\<close>
  and \<^verbatim>\<open>txns_last_1h\<close>.
\<close>

fun not_number :: "pyval option \<Rightarrow> bool" where
  "not_number (Some (PStr s)) = True"
| "not_number (Some PNone) = True"
| "not_number v = False"

definition numeric_fields :: "(string \<rightharpoonup> pyval) \<Rightarrow> bool" where
  "numeric_fields d \<longleftrightarrow>
     \<not> not_number (d ''amount'') \<and> \<not> not_number (d ''hour'') \<and> \<not> not_number (d ''txns_last_1h'')"

text \<open>The defaults that the two scorers pass to \<^verbatim>\<open>get\<close>.\<close>

definition field_defaults :: "string \<rightharpoonup> pyval" where
  "field_defaults = [''amount'' \<mapsto> PInt 0, ''hour'' \<mapsto> PInt 12,
     ''txns_last_1h'' \<mapsto> PInt 0, ''is_new_recipient'' \<mapsto> PInt 0]"

text \<open>The first demo scenario of \<^verbatim>\<open>app.py\<close> (lines 334-339) and \<^verbatim>\<open>04_run_demo.py\<close>.\<close>

definition micropay_scam :: pyobj where
  "micropay_scam = Dict [''amount'' \<mapsto> PInt 50000, ''hour'' \<mapsto> PInt 3,
     ''txns_last_1h'' \<mapsto> PInt 8, ''is_new_recipient'' \<mapsto> PInt 1]"

text \<open>The second demo scenario of \<^verbatim>\<open>app.py\<close> (lines 345-350).\<close>

definition velocity_attack :: pyobj where
  "velocity_attack = Dict [''amount'' \<mapsto> PInt 20000, ''hour'' \<mapsto> PInt 2,
     ''txns_last_1h'' \<mapsto> PInt 9, ''is_new_recipient'' \<mapsto> PInt 1]"

text \<open>
  The condition that the specification puts on a list of bands, taken in the order of
  their declaration: contiguous, non-overlapping and covering 0 to 100. The first band
  starts at 0, every band is non-empty and ends where the next one starts, and the last
  band ends at 100.
\<close>

fun spec_bands_from :: "int \<Rightarrow> (string \<times> int \<times> int) list \<Rightarrow> bool" where
  "spec_bands_from lo [] = (lo = 100)"
| "spec_bands_from lo ((name, l, h) # bs) = (l = lo \<and> l < h \<and> spec_bands_from h bs)"

definition spec_bands_valid :: "(string \<times> int \<times> int) list \<Rightarrow> bool" where
  "spec_bands_valid bs = spec_bands_from 0 bs"

text \<open>
  The thresholds of a detector read as bands, when the three of them are ints: each
  level from its own threshold up to the threshold of the next level, and HIGH up to 100.
  The property C8 below shows that this is how \<^verbatim>\<open>predict\<close> uses them whenever the bands
  so read are valid.
\<close>

definition bands_of_thresholds :: "(string \<rightharpoonup> pyval) \<Rightarrow> (string \<times> int \<times> int) list option" where
  "bands_of_thresholds th =
     (case (th ''LOW'', th ''MEDIUM'', th ''HIGH'') of
        (Some (PInt l), Some (PInt m), Some (PInt h)) \<Rightarrow>
          Some [(''LOW'', (l, m)), (''MEDIUM'', (m, h)), (''HIGH'', (h, 100))]
      | _ \<Rightarrow> None)"

definition spec_thresholds_valid :: "(string \<rightharpoonup> pyval) \<Rightarrow> bool" where
  "spec_thresholds_valid th =
     (case bands_of_thresholds th of None \<Rightarrow> False | Some bs \<Rightarrow> spec_bands_valid bs)"

section \<open>Basic facts\<close>

lemma bindE_Inl [simp]: "bindE (Inl e) f = Inl e"
  by (simp add: bindE_def)

lemma bindE_Inr [simp]: "bindE (Inr v) f = f v"
  by (simp add: bindE_def)

lemma bindE_eq_Inr: "bindE x f = Inr y \<longleftrightarrow> (\<exists>v. x = Inr v \<and> f v = Inr y)"
  by (cases x) simp_all

lemma run_rules_demo_Inr:
  "run_rules_demo rs t (s, l) = Inr (s', l') \<Longrightarrow>
     s' = s + sum_list (map (\<lambda>r. snd (snd r)) (filter (fires_demo t) rs)) \<and>
     l' = l @ map fst (filter (fires_demo t) rs)"
proof (induction rs arbitrary: s l)
  case Nil
  then show ?case by simp
next
  case (Cons r rs)
  obtain desc cond points where r: "r = (desc, cond, points)"
    by (cases r) auto
  from Cons.prems obtain b where b: "cond t = Inr b"
    by (auto simp: r bindE_eq_Inr)
  show ?case
  proof (cases b)
    case True
    with Cons.prems b have "run_rules_demo rs t (s + points, l @ [desc]) = Inr (s', l')"
      by (simp add: r)
    from Cons.IH [OF this] True b show ?thesis
      by (simp add: r fires_demo_def)
  next
    case False
    with Cons.prems b have "run_rules_demo rs t (s, l) = Inr (s', l')"
      by (simp add: r)
    from Cons.IH [OF this] False b show ?thesis
      by (simp add: r fires_demo_def)
  qed
qed

lemma run_rules_predict_Inr:
  "run_rules_predict rs t (s, l) = Inr (s', l') \<Longrightarrow>
     s' = s + sum_list (map score (filter (fires t) rs)) \<and>
     l' = l @ map description (filter (fires t) rs)"
proof (induction rs arbitrary: s l)
  case Nil
  then show ?case by simp
next
  case (Cons r rs)
  from Cons.prems obtain b where b: "condition r t = Inr b"
    by (auto simp: bindE_eq_Inr)
  show ?case
  proof (cases b)
    case True
    with Cons.prems b
    have "run_rules_predict rs t (s + score r, l @ [description r]) = Inr (s', l')"
      by simp
    from Cons.IH [OF this] True b show ?thesis
      by (simp add: fires_def)
  next
    case False
    with Cons.prems b have "run_rules_predict rs t (s, l) = Inr (s', l')"
      by simp
    from Cons.IH [OF this] False b show ?thesis
      by (simp add: fires_def)
  qed
qed

lemma sum_filter_bounds:
  fixes f :: "'a \<Rightarrow> int"
  assumes "\<forall>x\<in>set xs. 0 \<le> f x"
  shows "0 \<le> sum_list (map f (filter P xs))"
  using assms by (induction xs) auto

lemma demo_points_nonneg: "\<forall>r\<in>set FallbackScorer_rules. 0 \<le> snd (snd r)"
  by (simp add: FallbackScorer_rules_def)

lemma init_scores_nonneg: "\<forall>r\<in>set (rules RuleBasedFraudDetector_init). 0 \<le> score r"
  by (simp add: RuleBasedFraudDetector_init_def)

lemma calculate_final_score_demo_Inr:
  assumes "calculate_final_score_demo t = Inr r"
  shows "risk_score r = min (sum_list (map (\<lambda>r. snd (snd r)) (filter (fires_demo t) FallbackScorer_rules))) 100"
    and "explanations r = take 3 (map fst (filter (fires_demo t) FallbackScorer_rules))"
    and "(risk_level r, suggested_action r) = determine_risk_level (risk_score r)"
proof -
  from assms obtain s l where run: "run_rules_demo FallbackScorer_rules t (0, []) = Inr (s, l)"
    and r: "r = \<lparr>risk_score = min s 100,
              risk_level = fst (determine_risk_level (min s 100)),
              suggested_action = snd (determine_risk_level (min s 100)),
              explanations = take 3 l\<rparr>"
    by (auto simp: calculate_final_score_demo_def bindE_eq_Inr Let_def split_def)
  from run_rules_demo_Inr [OF run] r
  show "risk_score r = min (sum_list (map (\<lambda>r. snd (snd r)) (filter (fires_demo t) FallbackScorer_rules))) 100"
    and "explanations r = take 3 (map fst (filter (fires_demo t) FallbackScorer_rules))"
    and "(risk_level r, suggested_action r) = determine_risk_level (risk_score r)"
    by simp_all
qed

lemma predict_Inr:
  assumes "predict self t = Inr r"
  shows "risk_score r = min (sum_list (map score (filter (fires t) (rules self)))) 100"
    and "rules_triggered r = map description (filter (fires t) (rules self))"
proof -
  from assms obtain s l where run: "run_rules_predict (rules self) t (0, []) = Inr (s, l)"
    and r: "risk_score r = min s 100" "rules_triggered r = l"
    by (auto simp: predict_def bindE_eq_Inr Let_def split_def)
  from run_rules_predict_Inr [OF run] r
  show "risk_score r = min (sum_list (map score (filter (fires t) (rules self)))) 100"
    and "rules_triggered r = map description (filter (fires t) (rules self))"
    by simp_all
qed

subsection \<open>The scorer of app.py, rule by rule\<close>


lemma rule1_amount_Inr:
  assumes "rule1_amount t (s, l) = Inr st" and "py_get t ''amount'' (PInt 0) = Inr a"
  shows "st = (if py_gt a 50000 = Inr True then (s + 40, l @ [''Amount > '' @ rupee_app @ ''50,000''])
               else if py_gt a 10000 = Inr True then (s + 30, l @ [''Amount > '' @ rupee_app @ ''10,000''])
               else (s, l))"
  using assms by (auto simp: rule1_amount_def bindE_eq_Inr split: if_splits)

lemma rule2_time_Inr:
  assumes "rule2_time t (s, l) = Inr st" and "py_get t ''hour'' (PInt 12) = Inr h"
  shows "st = (if py_lt h 6 = Inr True then (s + 25, l @ [''Late night transaction (12AM-6AM)''])
               else (s, l))"
  using assms by (auto simp: rule2_time_def bindE_eq_Inr split: if_splits)

lemma rule3_velocity_Inr:
  assumes "rule3_velocity fs t (s, l) = Inr st" and "py_get t ''txns_last_1h'' (PInt 0) = Inr n"
  shows "st = (if py_gt n 5 = Inr True
               then (s + 30, l @ [''High velocity ('' @ py_format fs n @ '' transactions/hour)''])
               else (s, l))"
  using assms by (auto simp: rule3_velocity_def bindE_eq_Inr split: if_splits)

lemma rule4_new_recipient_Inr:
  assumes "rule4_new_recipient t (s, l) = Inr st" and "py_get t ''is_new_recipient'' (PInt 0) = Inr w"
  shows "st = (if py_eq w 1 then (s + 25, l @ [''First time sending to this recipient''])
               else (s, l))"
  using assms by (auto simp: rule4_new_recipient_def bindE_eq_Inr split: if_splits)


lemma apply_rules_app_Inr:
  assumes run: "apply_rules_app fs t = Inr (raw, reasons)"
    and a: "py_get t ''amount'' (PInt 0) = Inr a"
    and h: "py_get t ''hour'' (PInt 12) = Inr h"
    and n: "py_get t ''txns_last_1h'' (PInt 0) = Inr n"
    and w: "py_get t ''is_new_recipient'' (PInt 0) = Inr w"
  shows "raw = (if py_gt a 50000 = Inr True then 40 else if py_gt a 10000 = Inr True then 30 else 0)
             + (if py_lt h 6 = Inr True then 25 else 0)
             + (if py_gt n 5 = Inr True then 30 else 0)
             + (if py_eq w 1 then 25 else 0)"
    and "reasons =
       (if py_gt a 50000 = Inr True then [''Amount > '' @ rupee_app @ ''50,000'']
        else if py_gt a 10000 = Inr True then [''Amount > '' @ rupee_app @ ''10,000''] else [])
       @ (if py_lt h 6 = Inr True then [''Late night transaction (12AM-6AM)''] else [])
       @ (if py_gt n 5 = Inr True
          then [''High velocity ('' @ py_format fs n @ '' transactions/hour)''] else [])
       @ (if py_eq w 1 then [''First time sending to this recipient''] else [])"
proof -
  from run obtain s1 l1 s2 l2 s3 l3 where
    r1: "rule1_amount t (0, []) = Inr (s1, l1)" and
    r2: "rule2_time t (s1, l1) = Inr (s2, l2)" and
    r3: "rule3_velocity fs t (s2, l2) = Inr (s3, l3)" and
    r4: "rule4_new_recipient t (s3, l3) = Inr (raw, reasons)"
    by (auto simp: apply_rules_app_def bindE_eq_Inr)
  note e1 = rule1_amount_Inr [OF r1 a]
  note e2 = rule2_time_Inr [OF r2 h]
  note e3 = rule3_velocity_Inr [OF r3 n]
  note e4 = rule4_new_recipient_Inr [OF r4 w]
  have s1: "s1 = (if py_gt a 50000 = Inr True then 40 else if py_gt a 10000 = Inr True then 30 else 0)"
    and l1: "l1 = (if py_gt a 50000 = Inr True then [''Amount > '' @ rupee_app @ ''50,000'']
        else if py_gt a 10000 = Inr True then [''Amount > '' @ rupee_app @ ''10,000''] else [])"
    using e1 by (simp_all split: if_splits)
  have s2: "s2 = s1 + (if py_lt h 6 = Inr True then 25 else 0)"
    and l2: "l2 = l1 @ (if py_lt h 6 = Inr True then [''Late night transaction (12AM-6AM)''] else [])"
    using e2 by (simp_all split: if_splits)
  have s3: "s3 = s2 + (if py_gt n 5 = Inr True then 30 else 0)"
    and l3: "l3 = l2 @ (if py_gt n 5 = Inr True
          then [''High velocity ('' @ py_format fs n @ '' transactions/hour)''] else [])"
    using e3 by (simp_all split: if_splits)
  have s4: "raw = s3 + (if py_eq w 1 then 25 else 0)"
    and l4: "reasons = l3 @ (if py_eq w 1 then [''First time sending to this recipient''] else [])"
    using e4 by (simp_all split: if_splits)
  show "raw = (if py_gt a 50000 = Inr True then 40 else if py_gt a 10000 = Inr True then 30 else 0)
             + (if py_lt h 6 = Inr True then 25 else 0)
             + (if py_gt n 5 = Inr True then 30 else 0)
             + (if py_eq w 1 then 25 else 0)"
    unfolding s4 s3 s2 s1 by (rule refl)
  show "reasons =
       (if py_gt a 50000 = Inr True then [''Amount > '' @ rupee_app @ ''50,000'']
        else if py_gt a 10000 = Inr True then [''Amount > '' @ rupee_app @ ''10,000''] else [])
       @ (if py_lt h 6 = Inr True then [''Late night transaction (12AM-6AM)''] else [])
       @ (if py_gt n 5 = Inr True
          then [''High velocity ('' @ py_format fs n @ '' transactions/hour)''] else [])
       @ (if py_eq w 1 then [''First time sending to this recipient''] else [])"
    unfolding l4 l3 l2 l1 by simp
qed

lemma calculate_final_score_app_Inr:
  assumes "calculate_final_score_app fs t = Inr r"
  shows "\<exists>raw reasons. apply_rules_app fs t = Inr (raw, reasons) \<and> risk_score r = min raw 100
           \<and> explanations r = reasons
           \<and> (risk_level r, suggested_action r) = determine_risk_level (risk_score r)"
  using assms
  by (auto simp: calculate_final_score_app_def bindE_eq_Inr Let_def split_def)

lemma scored_is_Dict:
  "apply_rules_app fs t = Inr st \<Longrightarrow> \<exists>d. t = Dict d"
  by (cases t) (simp_all add: apply_rules_app_def rule1_amount_def)

lemmas app_defs = calculate_final_score_app_def apply_rules_app_def rule1_amount_def
  rule2_time_def rule3_velocity_def rule4_new_recipient_def determine_risk_level_def
  str_int_def str_nat.simps digit_char_def

lemmas demo_defs = calculate_final_score_demo_def FallbackScorer_rules_def
  determine_risk_level_def

lemmas predict_defs = predict_def RuleBasedFraudDetector_init_def check_amount_gt_50000_def
  check_amount_gt_10000_def check_hour_lt_6_def check_hour_gt_22_def
  check_amount_log_gt_12_def py_index_def

lemma in_band_RISK_LEVELS:
  assumes "0 \<le> s" and "s \<le> 100"
  shows "\<forall>b\<in>set RISK_LEVELS. in_band s b \<longleftrightarrow> fst (determine_risk_level s) = fst b"
  using assms by (simp add: RISK_LEVELS_def in_band_def determine_risk_level_def) linarith

lemma determine_risk_level_cases:
  "(fst (determine_risk_level s) = ''LOW'' \<longleftrightarrow> s < 40) \<and>
   (fst (determine_risk_level s) = ''MEDIUM'' \<longleftrightarrow> 40 \<le> s \<and> s < 70) \<and>
   (fst (determine_risk_level s) = ''HIGH'' \<longleftrightarrow> 70 \<le> s)"
  by (simp add: determine_risk_level_def)

lemma determine_risk_level_action:
  "(fst (determine_risk_level s) = ''HIGH'' \<longrightarrow>
       snd (determine_risk_level s) = ''BLOCK - Requires additional verification'') \<and>
   (fst (determine_risk_level s) = ''MEDIUM'' \<longrightarrow>
       snd (determine_risk_level s) = ''WARN - Review recommended'') \<and>
   (fst (determine_risk_level s) = ''LOW'' \<longrightarrow>
       snd (determine_risk_level s) = ''ALLOW - Appears legitimate'')"
  by (simp add: determine_risk_level_def)

lemma RISK_LEVELS_names_distinct:
  "b \<in> set RISK_LEVELS \<Longrightarrow> c \<in> set RISK_LEVELS \<Longrightarrow> fst c = fst b \<Longrightarrow> c = b"
  by (auto simp: RISK_LEVELS_def)

lemma determine_risk_level_in_RISK_LEVELS:
  "\<exists>b\<in>set RISK_LEVELS. fst (determine_risk_level s) = fst b"
  by (simp add: RISK_LEVELS_def determine_risk_level_def)

lemma py_gt_mono: "py_gt a c = Inr True \<Longrightarrow> c' \<le> c \<Longrightarrow> py_gt a c' = Inr True"
proof (cases a)
  case (PFloat f)
  assume "py_gt a c = Inr True" and "c' \<le> c"
  with PFloat show ?thesis
    by (cases f) (auto simp: less_le_trans of_int_le_iff intro: le_less_trans)
qed (auto split: if_splits)

lemma filter_fires_demo_over_50000:
  assumes "py_get t ''amount'' (PInt 0) = Inr a" and "py_gt a 50000 = Inr True"
  shows "filter (fires_demo t) FallbackScorer_rules =
           FallbackScorer_rules ! 0 # FallbackScorer_rules ! 1 #
           filter (fires_demo t) (drop 2 FallbackScorer_rules)"
  using assms py_gt_mono [OF assms(2), of 10000]
  by (simp add: FallbackScorer_rules_def fires_demo_def)

lemma filter_fires_over_50000:
  assumes "py_get t ''amount'' (PInt 0) = Inr a" and "py_gt a 50000 = Inr True"
  shows "filter (fires t) (rules RuleBasedFraudDetector_init) =
           rules RuleBasedFraudDetector_init ! 0 # rules RuleBasedFraudDetector_init ! 1 #
           filter (fires t) (drop 2 (rules RuleBasedFraudDetector_init))"
  using assms py_gt_mono [OF assms(2), of 10000]
  by (simp add: RuleBasedFraudDetector_init_def fires_def check_amount_gt_50000_def
      check_amount_gt_10000_def)

lemma py_eq_gt: "py_eq v c \<Longrightarrow> py_gt v c' = Inr (c' < c)"
proof (cases v)
  case (PFloat f)
  assume "py_eq v c"
  with PFloat show ?thesis by (cases f) auto
qed (auto split: if_splits)

lemma py_eq_lt: "py_eq v c \<Longrightarrow> py_lt v c' = Inr (c < c')"
proof (cases v)
  case (PFloat f)
  assume "py_eq v c"
  with PFloat show ?thesis by (cases f) auto
qed (auto split: if_splits)

subsection \<open>Which records score without an exception\<close>

lemma py_gt_str: "not_number (Some v) \<Longrightarrow> py_gt v c = Inl TypeError"
  by (cases v) simp_all

lemma py_lt_str: "not_number (Some v) \<Longrightarrow> py_lt v c = Inl TypeError"
  by (cases v) simp_all

lemma py_gt_num: "\<not> not_number (Some v) \<Longrightarrow> \<exists>b. py_gt v c = Inr b"
proof (cases v)
  case (PFloat f)
  then show ?thesis by (cases f) auto
qed simp_all

lemma py_lt_num: "\<not> not_number (Some v) \<Longrightarrow> \<exists>b. py_lt v c = Inr b"
proof (cases v)
  case (PFloat f)
  then show ?thesis by (cases f) auto
qed simp_all

lemma not_number_default:
  "not_number (Some (case x of None \<Rightarrow> PInt c | Some v \<Rightarrow> v)) = not_number x"
  by (cases x) simp_all

lemma rule1_amount_num:
  assumes "\<not> not_number (d ''amount'')"
  shows "\<exists>st'. rule1_amount (Dict d) st = Inr st'"
proof -
  let ?a = "case d ''amount'' of None \<Rightarrow> PInt 0 | Some v \<Rightarrow> v"
  from assms have n: "\<not> not_number (Some ?a)"
    by (simp add: not_number_default)
  from py_gt_num [OF n, of 50000] py_gt_num [OF n, of 10000]
  obtain b1 b2 where "py_gt ?a 50000 = Inr b1" "py_gt ?a 10000 = Inr b2"
    by blast
  then show ?thesis
    by (cases st) (simp add: rule1_amount_def)
qed

lemma rule1_amount_str:
  assumes "not_number (d ''amount'')"
  shows "rule1_amount (Dict d) st = Inl TypeError"
proof -
  let ?a = "case d ''amount'' of None \<Rightarrow> PInt 0 | Some v \<Rightarrow> v"
  from assms have "not_number (Some ?a)"
    by (simp add: not_number_default)
  from py_gt_str [OF this, of 50000] show ?thesis
    by (cases st) (simp add: rule1_amount_def)
qed

lemma rule2_time_num:
  assumes "\<not> not_number (d ''hour'')"
  shows "\<exists>st'. rule2_time (Dict d) st = Inr st'"
proof -
  let ?h = "case d ''hour'' of None \<Rightarrow> PInt 12 | Some v \<Rightarrow> v"
  from assms have n: "\<not> not_number (Some ?h)"
    by (simp add: not_number_default)
  from py_lt_num [OF n, of 6] obtain b where "py_lt ?h 6 = Inr b"
    by blast
  then show ?thesis
    by (cases st) (simp add: rule2_time_def)
qed

lemma rule2_time_str:
  assumes "not_number (d ''hour'')"
  shows "rule2_time (Dict d) st = Inl TypeError"
proof -
  let ?h = "case d ''hour'' of None \<Rightarrow> PInt 12 | Some v \<Rightarrow> v"
  from assms have "not_number (Some ?h)"
    by (simp add: not_number_default)
  from py_lt_str [OF this, of 6] show ?thesis
    by (cases st) (simp add: rule2_time_def)
qed

lemma rule3_velocity_num:
  assumes "\<not> not_number (d ''txns_last_1h'')"
  shows "\<exists>st'. rule3_velocity fs (Dict d) st = Inr st'"
proof -
  let ?n = "case d ''txns_last_1h'' of None \<Rightarrow> PInt 0 | Some v \<Rightarrow> v"
  from assms have n: "\<not> not_number (Some ?n)"
    by (simp add: not_number_default)
  from py_gt_num [OF n, of 5] obtain b where "py_gt ?n 5 = Inr b"
    by blast
  then show ?thesis
    by (cases st) (simp add: rule3_velocity_def)
qed

lemma rule3_velocity_str:
  assumes "not_number (d ''txns_last_1h'')"
  shows "rule3_velocity fs (Dict d) st = Inl TypeError"
proof -
  let ?n = "case d ''txns_last_1h'' of None \<Rightarrow> PInt 0 | Some v \<Rightarrow> v"
  from assms have "not_number (Some ?n)"
    by (simp add: not_number_default)
  from py_gt_str [OF this, of 5] show ?thesis
    by (cases st) (simp add: rule3_velocity_def)
qed

lemma rule4_new_recipient_Dict: "\<exists>st'. rule4_new_recipient (Dict d) st = Inr st'"
  by (cases st) (simp add: rule4_new_recipient_def)

lemma apply_rules_app_num:
  assumes "numeric_fields d"
  shows "\<exists>st. apply_rules_app fs (Dict d) = Inr st"
proof -
  from assms have n: "\<not> not_number (d ''amount'')" "\<not> not_number (d ''hour'')"
    "\<not> not_number (d ''txns_last_1h'')"
    by (simp_all add: numeric_fields_def)
  from rule1_amount_num [of d, OF n(1)] obtain st1 where 1: "rule1_amount (Dict d) (0, []) = Inr st1"
    by blast
  from rule2_time_num [of d, OF n(2)] obtain st2 where 2: "rule2_time (Dict d) st1 = Inr st2"
    by blast
  from rule3_velocity_num [of d, OF n(3)] obtain st3 where 3: "rule3_velocity fs (Dict d) st2 = Inr st3"
    by blast
  from rule4_new_recipient_Dict obtain st4 where 4: "rule4_new_recipient (Dict d) st3 = Inr st4"
    by blast
  from 1 2 3 4 show ?thesis
    by (simp add: apply_rules_app_def)
qed

lemma apply_rules_app_str:
  assumes "\<not> numeric_fields d"
  shows "apply_rules_app fs (Dict d) = Inl TypeError"
proof (cases "not_number (d ''amount'')")
  case True
  from rule1_amount_str [of d, OF True] show ?thesis
    by (simp add: apply_rules_app_def)
next
  case a: False
  from rule1_amount_num [of d, OF a] obtain st1 where 1: "rule1_amount (Dict d) (0, []) = Inr st1"
    by blast
  show ?thesis
  proof (cases "not_number (d ''hour'')")
    case True
    from 1 rule2_time_str [of d, OF True] show ?thesis
      by (simp add: apply_rules_app_def)
  next
    case h: False
    from rule2_time_num [of d, OF h] obtain st2 where 2: "rule2_time (Dict d) st1 = Inr st2"
      by blast
    from assms a h have "not_number (d ''txns_last_1h'')"
      by (simp add: numeric_fields_def)
    from 1 2 rule3_velocity_str [of d, OF this] show ?thesis
      by (simp add: apply_rules_app_def)
  qed
qed

lemma calculate_final_score_app_num:
  assumes "numeric_fields d"
  shows "\<exists>r. calculate_final_score_app fs (Dict d) = Inr r"
proof -
  from apply_rules_app_num [OF assms] obtain st where "apply_rules_app fs (Dict d) = Inr st"
    by blast
  then show ?thesis
    by (cases st) (simp add: calculate_final_score_app_def Let_def split_def)
qed

lemma calculate_final_score_app_str:
  assumes "\<not> numeric_fields d"
  shows "calculate_final_score_app fs (Dict d) = Inl TypeError"
  using apply_rules_app_str [OF assms] by (simp add: calculate_final_score_app_def)

subsection \<open>The rule loop of 04_run_demo.py\<close>

lemma run_rules_demo_total:
  assumes "\<forall>r\<in>set rs. \<exists>b. fst (snd r) t = Inr b"
  shows "\<exists>st'. run_rules_demo rs t st = Inr st'"
  using assms
proof (induction rs arbitrary: st)
  case Nil
  then show ?case by simp
next
  case (Cons r rs)
  obtain desc cond points where r: "r = (desc, cond, points)"
    by (cases r) auto
  obtain s l where st: "st = (s, l)"
    by (cases st) auto
  from Cons.prems r obtain b where b: "cond t = Inr b"
    by auto
  from Cons.prems have rest: "\<forall>r\<in>set rs. \<exists>b. fst (snd r) t = Inr b"
    by simp
  from Cons.IH [OF rest] b show ?case
    by (simp add: r st)
qed

lemma run_rules_demo_error:
  assumes "\<exists>r\<in>set rs. fst (snd r) t = Inl e"
    and "\<forall>r\<in>set rs. \<forall>e'. fst (snd r) t = Inl e' \<longrightarrow> e' = e"
  shows "run_rules_demo rs t st = Inl e"
  using assms
proof (induction rs arbitrary: st)
  case Nil
  then show ?case by simp
next
  case (Cons r rs)
  obtain desc cond points where r: "r = (desc, cond, points)"
    by (cases r) auto
  obtain s l where st: "st = (s, l)"
    by (cases st) auto
  show ?case
  proof (cases "cond t")
    case (Inl e')
    with Cons.prems(2) r have "e' = e"
      by simp
    with Inl show ?thesis
      by (simp add: r st)
  next
    case (Inr b)
    with Cons.prems(1) r have ex: "\<exists>r\<in>set rs. fst (snd r) t = Inl e"
      by auto
    from Cons.prems(2) have all: "\<forall>r\<in>set rs. \<forall>e'. fst (snd r) t = Inl e' \<longrightarrow> e' = e"
      by simp
    from Cons.IH [OF ex all] Inr show ?thesis
      by (simp add: r st)
  qed
qed

lemma run_rules_demo_cong:
  assumes "\<forall>r\<in>set rs. fst (snd r) t = fst (snd r) t'"
  shows "run_rules_demo rs t st = run_rules_demo rs t' st"
  using assms
proof (induction rs arbitrary: st)
  case Nil
  then show ?case by simp
next
  case (Cons r rs)
  obtain desc cond points where r: "r = (desc, cond, points)"
    by (cases r) auto
  obtain s l where st: "st = (s, l)"
    by (cases st) auto
  from Cons.prems r have c: "cond t = cond t'"
    by simp
  from Cons.prems have rest: "\<forall>r\<in>set rs. fst (snd r) t = fst (snd r) t'"
    by simp
  show ?case
    by (cases "cond t'") (simp_all add: r st c Cons.IH [OF rest] cong: if_cong)
qed

lemma demo_conditions_num:
  assumes "numeric_fields d"
  shows "\<forall>r\<in>set FallbackScorer_rules. \<exists>b. fst (snd r) (Dict d) = Inr b"
proof -
  from assms have n: "\<not> not_number (Some (case d ''amount'' of None \<Rightarrow> PInt 0 | Some v \<Rightarrow> v))"
    "\<not> not_number (Some (case d ''hour'' of None \<Rightarrow> PInt 12 | Some v \<Rightarrow> v))"
    "\<not> not_number (Some (case d ''txns_last_1h'' of None \<Rightarrow> PInt 0 | Some v \<Rightarrow> v))"
    by (simp_all add: numeric_fields_def not_number_default)
  from py_gt_num [OF n(1)] py_lt_num [OF n(2)] py_gt_num [OF n(2)] py_gt_num [OF n(3)]
  show ?thesis
    by (simp add: FallbackScorer_rules_def)
qed

lemma demo_conditions_TypeError:
  "\<forall>r\<in>set FallbackScorer_rules. \<forall>e'. fst (snd r) (Dict d) = Inl e' \<longrightarrow> e' = TypeError"
proof -
  have gt: "py_gt v c = Inl e' \<Longrightarrow> e' = TypeError" for v c e'
    by (cases v) (auto elim: py_gt.elims)
  have lt: "py_lt v c = Inl e' \<Longrightarrow> e' = TypeError" for v c e'
    by (cases v) (auto elim: py_lt.elims)
  show ?thesis
    by (auto simp: FallbackScorer_rules_def dest: gt lt)
qed

lemma demo_conditions_str:
  assumes "\<not> numeric_fields d"
  shows "\<exists>r\<in>set FallbackScorer_rules. fst (snd r) (Dict d) = Inl TypeError"
proof -
  from assms consider "not_number (Some (case d ''amount'' of None \<Rightarrow> PInt 0 | Some v \<Rightarrow> v))"
    | "not_number (Some (case d ''hour'' of None \<Rightarrow> PInt 12 | Some v \<Rightarrow> v))"
    | "not_number (Some (case d ''txns_last_1h'' of None \<Rightarrow> PInt 0 | Some v \<Rightarrow> v))"
    by (auto simp: numeric_fields_def not_number_default)
  then show ?thesis
  proof cases
    case 1
    from py_gt_str [OF 1, of 50000] show ?thesis
      by (simp add: FallbackScorer_rules_def)
  next
    case 2
    from py_lt_str [OF 2, of 6] show ?thesis
      by (simp add: FallbackScorer_rules_def)
  next
    case 3
    from py_gt_str [OF 3, of 5] show ?thesis
      by (simp add: FallbackScorer_rules_def)
  qed
qed

lemma calculate_final_score_demo_num:
  assumes "numeric_fields d"
  shows "\<exists>r. calculate_final_score_demo (Dict d) = Inr r"
proof -
  from run_rules_demo_total [OF demo_conditions_num [OF assms]]
  obtain st where "run_rules_demo FallbackScorer_rules (Dict d) (0, []) = Inr st"
    by blast
  then show ?thesis
    by (cases st) (simp add: calculate_final_score_demo_def Let_def split_def)
qed

lemma calculate_final_score_demo_str:
  assumes "\<not> numeric_fields d"
  shows "calculate_final_score_demo (Dict d) = Inl TypeError"
  using run_rules_demo_error [OF demo_conditions_str [OF assms] demo_conditions_TypeError]
  by (simp add: calculate_final_score_demo_def)

subsection \<open>Absent fields and their defaults\<close>

lemma py_get_field_defaults:
  "py_get (Dict (field_defaults ++ d)) ''amount'' (PInt 0) = py_get (Dict d) ''amount'' (PInt 0)"
  "py_get (Dict (field_defaults ++ d)) ''hour'' (PInt 12) = py_get (Dict d) ''hour'' (PInt 12)"
  "py_get (Dict (field_defaults ++ d)) ''txns_last_1h'' (PInt 0) =
     py_get (Dict d) ''txns_last_1h'' (PInt 0)"
  "py_get (Dict (field_defaults ++ d)) ''is_new_recipient'' (PInt 0) =
     py_get (Dict d) ''is_new_recipient'' (PInt 0)"
  by (simp_all add: field_defaults_def map_add_def split: option.splits)

lemma calculate_final_score_app_defaults:
  "calculate_final_score_app fs (Dict (field_defaults ++ d)) = calculate_final_score_app fs (Dict d)"
  by (simp only: calculate_final_score_app_def apply_rules_app_def rule1_amount_def
      rule2_time_def rule3_velocity_def rule4_new_recipient_def py_get_field_defaults)

lemma demo_conditions_defaults:
  "\<forall>r\<in>set FallbackScorer_rules. fst (snd r) (Dict (field_defaults ++ d)) = fst (snd r) (Dict d)"
  by (simp add: FallbackScorer_rules_def py_get_field_defaults del: py_get.simps)

lemma calculate_final_score_demo_defaults:
  "calculate_final_score_demo (Dict (field_defaults ++ d)) = calculate_final_score_demo (Dict d)"
  by (simp only: calculate_final_score_demo_def
      run_rules_demo_cong [OF demo_conditions_defaults])

subsection \<open>The batch loops\<close>

lemma calculate_final_score_app_Dict:
  assumes "calculate_final_score_app fs t = Inr r"
  shows "\<exists>d. t = Dict d"
proof -
  from calculate_final_score_app_Inr [OF assms] obtain raw reasons
    where "apply_rules_app fs t = Inr (raw, reasons)"
    by blast
  then show ?thesis
    by (rule scored_is_Dict)
qed

lemma calculate_final_score_app_Scalar [simp]:
  "calculate_final_score_app fs (Scalar v) = Inl AttributeError"
  by (simp add: calculate_final_score_app_def apply_rules_app_def rule1_amount_def)

lemma calculate_final_score_demo_Scalar [simp]:
  "calculate_final_score_demo (Scalar v) = Inl AttributeError"
  by (simp add: calculate_final_score_demo_def FallbackScorer_rules_def)

lemma calculate_final_score_demo_Dict:
  assumes "calculate_final_score_demo t = Inr r"
  shows "\<exists>d. t = Dict d"
  using assms by (cases t) simp_all

lemma analyze_batch_app_loop_Inr:
  assumes "analyze_batch_app_loop fs i ts acc = Inr rows"
  shows "\<exists>new. rows = acc @ new \<and> length new = length ts \<and>
    (\<forall>j<length ts. \<exists>r. calculate_final_score_app fs (ts ! j) = Inr r \<and>
       risk_score (new ! j) = risk_score r \<and> risk_level (new ! j) = risk_level r \<and>
       suggested_action (new ! j) = suggested_action r \<and>
       top_reason (new ! j) = top_reason_of (explanations r) \<and>
       py_get (ts ! j) ''transaction_id'' (PStr (''TXN_'' @ format_06d (i + j))) =
         Inr (transaction_id (new ! j)) \<and>
       py_get (ts ! j) ''amount'' (PInt 0) = Inr (amount (new ! j)))"
  using assms
proof (induction ts arbitrary: i acc rows)
  case Nil
  then show ?case by simp
next
  case (Cons txn rest)
  from Cons.prems obtain result tid amt where
    res: "calculate_final_score_app fs txn = Inr result" and
    tid: "py_get txn ''transaction_id'' (PStr (''TXN_'' @ format_06d i)) = Inr tid" and
    amt: "py_get txn ''amount'' (PInt 0) = Inr amt" and
    loop: "analyze_batch_app_loop fs (Suc i) rest (acc @
         [\<lparr>risk_score = risk_score result, risk_level = risk_level result,
           suggested_action = suggested_action result, transaction_id = tid,
           top_reason = top_reason_of (explanations result), amount = amt\<rparr>]) = Inr rows"
    by (auto simp: bindE_eq_Inr)
  let ?row = "\<lparr>risk_score = risk_score result, risk_level = risk_level result,
           suggested_action = suggested_action result, transaction_id = tid,
           top_reason = top_reason_of (explanations result), amount = amt\<rparr>"
  from Cons.IH [OF loop] obtain new where
    rows: "rows = (acc @ [?row]) @ new" and len: "length new = length rest" and
    each: "\<forall>j<length rest. \<exists>r. calculate_final_score_app fs (rest ! j) = Inr r \<and>
       risk_score (new ! j) = risk_score r \<and> risk_level (new ! j) = risk_level r \<and>
       suggested_action (new ! j) = suggested_action r \<and>
       top_reason (new ! j) = top_reason_of (explanations r) \<and>
       py_get (rest ! j) ''transaction_id'' (PStr (''TXN_'' @ format_06d (Suc i + j))) =
         Inr (transaction_id (new ! j)) \<and>
       py_get (rest ! j) ''amount'' (PInt 0) = Inr (amount (new ! j))"
    by blast
  have "\<forall>j<length (txn # rest). \<exists>r. calculate_final_score_app fs ((txn # rest) ! j) = Inr r \<and>
       risk_score ((?row # new) ! j) = risk_score r \<and> risk_level ((?row # new) ! j) = risk_level r \<and>
       suggested_action ((?row # new) ! j) = suggested_action r \<and>
       top_reason ((?row # new) ! j) = top_reason_of (explanations r) \<and>
       py_get ((txn # rest) ! j) ''transaction_id'' (PStr (''TXN_'' @ format_06d (i + j))) =
         Inr (transaction_id ((?row # new) ! j)) \<and>
       py_get ((txn # rest) ! j) ''amount'' (PInt 0) = Inr (amount ((?row # new) ! j))"
  proof (intro allI impI)
    fix j
    assume j: "j < length (txn # rest)"
    show "\<exists>r. calculate_final_score_app fs ((txn # rest) ! j) = Inr r \<and>
       risk_score ((?row # new) ! j) = risk_score r \<and> risk_level ((?row # new) ! j) = risk_level r \<and>
       suggested_action ((?row # new) ! j) = suggested_action r \<and>
       top_reason ((?row # new) ! j) = top_reason_of (explanations r) \<and>
       py_get ((txn # rest) ! j) ''transaction_id'' (PStr (''TXN_'' @ format_06d (i + j))) =
         Inr (transaction_id ((?row # new) ! j)) \<and>
       py_get ((txn # rest) ! j) ''amount'' (PInt 0) = Inr (amount ((?row # new) ! j))"
    proof (cases j)
      case 0
      with res tid amt show ?thesis by simp
    next
      case (Suc k)
      with j have "k < length rest" by simp
      with each Suc show ?thesis by simp
    qed
  qed
  with rows len show ?case
    by (intro exI [of _ "?row # new"]) simp
qed

lemma analyze_batch_app_loop_total:
  assumes "\<forall>t\<in>set ts. \<exists>r. calculate_final_score_app fs t = Inr r"
  shows "\<exists>rows. analyze_batch_app_loop fs i ts acc = Inr rows"
  using assms
proof (induction ts arbitrary: i acc)
  case Nil
  then show ?case by simp
next
  case (Cons txn rest)
  from Cons.prems obtain r where r: "calculate_final_score_app fs txn = Inr r"
    by auto
  from calculate_final_score_app_Dict [OF r] obtain d where d: "txn = Dict d"
    by blast
  from Cons.prems have "\<forall>t\<in>set rest. \<exists>r. calculate_final_score_app fs t = Inr r"
    by simp
  from Cons.IH [OF this] r show ?case
    by (simp add: d)
qed

lemma analyze_batch_app_loop_error:
  assumes "\<forall>t\<in>set pre. \<exists>r. calculate_final_score_app fs t = Inr r"
    and "calculate_final_score_app fs bad = Inl e"
  shows "analyze_batch_app_loop fs i (pre @ bad # post) acc = Inl e"
  using assms
proof (induction pre arbitrary: i acc)
  case Nil
  then show ?case by simp
next
  case (Cons txn rest)
  from Cons.prems obtain r where r: "calculate_final_score_app fs txn = Inr r"
    by auto
  from calculate_final_score_app_Dict [OF r] obtain d where d: "txn = Dict d"
    by blast
  from Cons.prems have "\<forall>t\<in>set rest. \<exists>r. calculate_final_score_app fs t = Inr r"
    by simp
  from Cons.IH [OF this Cons.prems(2)] r show ?case
    by (simp add: d)
qed

lemma analyze_batch_demo_loop_Inr:
  assumes "analyze_batch_demo_loop i ts acc = Inr rows"
  shows "\<exists>new. rows = acc @ new \<and> length new = length ts \<and>
    (\<forall>j<length ts. \<exists>r. calculate_final_score_demo (ts ! j) = Inr r \<and>
       risk_score (new ! j) = risk_score r \<and> risk_level (new ! j) = risk_level r \<and>
       suggested_action (new ! j) = suggested_action r \<and>
       top_reason (new ! j) = top_reason_of (explanations r) \<and>
       py_get (ts ! j) ''transaction_id'' (PStr (''TXN_'' @ str_nat (i + j))) =
         Inr (transaction_id (new ! j)))"
  using assms
proof (induction ts arbitrary: i acc rows)
  case Nil
  then show ?case by simp
next
  case (Cons txn rest)
  from Cons.prems obtain result tid where
    res: "calculate_final_score_demo txn = Inr result" and
    tid: "py_get txn ''transaction_id'' (PStr (''TXN_'' @ str_nat i)) = Inr tid" and
    loop: "analyze_batch_demo_loop (Suc i) rest (acc @
         [\<lparr>risk_score = risk_score result, risk_level = risk_level result,
           suggested_action = suggested_action result, transaction_id = tid,
           top_reason = top_reason_of (explanations result)\<rparr>]) = Inr rows"
    by (auto simp: bindE_eq_Inr)
  let ?row = "\<lparr>risk_score = risk_score result, risk_level = risk_level result,
           suggested_action = suggested_action result, transaction_id = tid,
           top_reason = top_reason_of (explanations result)\<rparr>"
  from Cons.IH [OF loop] obtain new where
    rows: "rows = (acc @ [?row]) @ new" and len: "length new = length rest" and
    each: "\<forall>j<length rest. \<exists>r. calculate_final_score_demo (rest ! j) = Inr r \<and>
       risk_score (new ! j) = risk_score r \<and> risk_level (new ! j) = risk_level r \<and>
       suggested_action (new ! j) = suggested_action r \<and>
       top_reason (new ! j) = top_reason_of (explanations r) \<and>
       py_get (rest ! j) ''transaction_id'' (PStr (''TXN_'' @ str_nat (Suc i + j))) =
         Inr (transaction_id (new ! j))"
    by blast
  have "\<forall>j<length (txn # rest). \<exists>r. calculate_final_score_demo ((txn # rest) ! j) = Inr r \<and>
       risk_score ((?row # new) ! j) = risk_score r \<and> risk_level ((?row # new) ! j) = risk_level r \<and>
       suggested_action ((?row # new) ! j) = suggested_action r \<and>
       top_reason ((?row # new) ! j) = top_reason_of (explanations r) \<and>
       py_get ((txn # rest) ! j) ''transaction_id'' (PStr (''TXN_'' @ str_nat (i + j))) =
         Inr (transaction_id ((?row # new) ! j))"
  proof (intro allI impI)
    fix j
    assume j: "j < length (txn # rest)"
    show "\<exists>r. calculate_final_score_demo ((txn # rest) ! j) = Inr r \<and>
       risk_score ((?row # new) ! j) = risk_score r \<and> risk_level ((?row # new) ! j) = risk_level r \<and>
       suggested_action ((?row # new) ! j) = suggested_action r \<and>
       top_reason ((?row # new) ! j) = top_reason_of (explanations r) \<and>
       py_get ((txn # rest) ! j) ''transaction_id'' (PStr (''TXN_'' @ str_nat (i + j))) =
         Inr (transaction_id ((?row # new) ! j))"
    proof (cases j)
      case 0
      with res tid show ?thesis by simp
    next
      case (Suc k)
      with j have "k < length rest" by simp
      with each Suc show ?thesis by simp
    qed
  qed
  with rows len show ?case
    by (intro exI [of _ "?row # new"]) simp
qed

lemma analyze_batch_demo_loop_total:
  assumes "\<forall>t\<in>set ts. \<exists>r. calculate_final_score_demo t = Inr r"
  shows "\<exists>rows. analyze_batch_demo_loop i ts acc = Inr rows"
  using assms
proof (induction ts arbitrary: i acc)
  case Nil
  then show ?case by simp
next
  case (Cons txn rest)
  from Cons.prems obtain r where r: "calculate_final_score_demo txn = Inr r"
    by auto
  from calculate_final_score_demo_Dict [OF r] obtain d where d: "txn = Dict d"
    by blast
  from Cons.prems have "\<forall>t\<in>set rest. \<exists>r. calculate_final_score_demo t = Inr r"
    by simp
  from Cons.IH [OF this] r show ?case
    by (simp add: d)
qed

lemma analyze_batch_demo_loop_error:
  assumes "\<forall>t\<in>set pre. \<exists>r. calculate_final_score_demo t = Inr r"
    and "calculate_final_score_demo bad = Inl e"
  shows "analyze_batch_demo_loop i (pre @ bad # post) acc = Inl e"
  using assms
proof (induction pre arbitrary: i acc)
  case Nil
  then show ?case by simp
next
  case (Cons txn rest)
  from Cons.prems obtain r where r: "calculate_final_score_demo txn = Inr r"
    by auto
  from calculate_final_score_demo_Dict [OF r] obtain d where d: "txn = Dict d"
    by blast
  from Cons.prems have "\<forall>t\<in>set rest. \<exists>r. calculate_final_score_demo t = Inr r"
    by simp
  from Cons.IH [OF this Cons.prems(2)] r show ?case
    by (simp add: d)
qed

lemma analyze_batch_simple_loop_Inr:
  assumes "analyze_batch_simple_loop self i ts acc = Inr rows"
  shows "\<exists>new. rows = acc @ new \<and> length new = length ts \<and>
    (\<forall>j<length ts. \<exists>r. predict (model self) (ts ! j) = Inr r \<and>
       risk_score (new ! j) = risk_score r \<and> risk_level (new ! j) = risk_level r \<and>
       suggested_action (new ! j) = suggested_action r \<and>
       py_get (ts ! j) ''transaction_id'' (PStr (''TXN_'' @ str_nat (i + j))) =
         Inr (transaction_id (new ! j)))"
  using assms
proof (induction ts arbitrary: i acc rows)
  case Nil
  then show ?case by simp
next
  case (Cons txn rest)
  from Cons.prems obtain result tid where
    res: "predict (model self) txn = Inr result" and
    tid: "py_get txn ''transaction_id'' (PStr (''TXN_'' @ str_nat i)) = Inr tid" and
    loop: "analyze_batch_simple_loop self (Suc i) rest (acc @
         [\<lparr>risk_score = risk_score result, risk_level = risk_level result,
           suggested_action = suggested_action result, transaction_id = tid\<rparr>]) = Inr rows"
    by (auto simp: bindE_eq_Inr)
  let ?row = "\<lparr>risk_score = risk_score result, risk_level = risk_level result,
           suggested_action = suggested_action result, transaction_id = tid\<rparr>"
  from Cons.IH [OF loop] obtain new where
    rows: "rows = (acc @ [?row]) @ new" and len: "length new = length rest" and
    each: "\<forall>j<length rest. \<exists>r. predict (model self) (rest ! j) = Inr r \<and>
       risk_score (new ! j) = risk_score r \<and> risk_level (new ! j) = risk_level r \<and>
       suggested_action (new ! j) = suggested_action r \<and>
       py_get (rest ! j) ''transaction_id'' (PStr (''TXN_'' @ str_nat (Suc i + j))) =
         Inr (transaction_id (new ! j))"
    by blast
  have "\<forall>j<length (txn # rest). \<exists>r. predict (model self) ((txn # rest) ! j) = Inr r \<and>
       risk_score ((?row # new) ! j) = risk_score r \<and> risk_level ((?row # new) ! j) = risk_level r \<and>
       suggested_action ((?row # new) ! j) = suggested_action r \<and>
       py_get ((txn # rest) ! j) ''transaction_id'' (PStr (''TXN_'' @ str_nat (i + j))) =
         Inr (transaction_id ((?row # new) ! j))"
  proof (intro allI impI)
    fix j
    assume j: "j < length (txn # rest)"
    show "\<exists>r. predict (model self) ((txn # rest) ! j) = Inr r \<and>
       risk_score ((?row # new) ! j) = risk_score r \<and> risk_level ((?row # new) ! j) = risk_level r \<and>
       suggested_action ((?row # new) ! j) = suggested_action r \<and>
       py_get ((txn # rest) ! j) ''transaction_id'' (PStr (''TXN_'' @ str_nat (i + j))) =
         Inr (transaction_id ((?row # new) ! j))"
    proof (cases j)
      case 0
      with res tid show ?thesis by simp
    next
      case (Suc k)
      with j have "k < length rest" by simp
      with each Suc show ?thesis by simp
    qed
  qed
  with rows len show ?case
    by (intro exI [of _ "?row # new"]) simp
qed

subsection \<open>Decimal text\<close>

lemma length_str_nat_pos: "0 < length (str_nat n)"
  by (subst str_nat.simps) simp

lemma length_str_nat_le: "n < 10 ^ k \<Longrightarrow> 0 < k \<Longrightarrow> length (str_nat n) \<le> k"
proof (induction n arbitrary: k rule: str_nat.induct)
  case (1 n)
  show ?case
  proof (cases "n < 10")
    case True
    with "1.prems" show ?thesis
      by (subst str_nat.simps) simp
  next
    case False
    have "k \<noteq> 1"
      using "1.prems"(1) False by auto
    with "1.prems"(2) obtain k' where k': "k = Suc k'" "0 < k'"
      by (cases k) auto
    from "1.prems"(1) k' have "n div 10 < 10 ^ k'"
      by (simp add: less_mult_imp_div_less mult.commute)
    from "1.IH" [OF False this k'(2)] False k' show ?thesis
      by (subst str_nat.simps) simp
  qed
qed

lemma length_format_06d: "i < 1000000 \<Longrightarrow> length (format_06d i) = 6"
  using length_str_nat_le [of i 6] by (simp add: format_06d_def)

lemma format_06d_suffix: "\<exists>zs. format_06d i = zs @ str_nat i \<and> set zs \<subseteq> {CHR ''0''}"
  by (auto simp: format_06d_def)

lemma empty_record_scores:
  "\<exists>r. calculate_final_score_app fs (Dict Map.empty) = Inr r"
  "\<exists>r. calculate_final_score_demo (Dict Map.empty) = Inr r"
  by (simp_all add: app_defs demo_defs)

subsection \<open>The rule loop of the detector\<close>

lemma run_rules_predict_total:
  assumes "\<forall>r\<in>set rs. \<exists>b. condition r t = Inr b"
  shows "\<exists>st'. run_rules_predict rs t st = Inr st'"
  using assms
proof (induction rs arbitrary: st)
  case Nil
  then show ?case by simp
next
  case (Cons r rs)
  obtain s l where st: "st = (s, l)"
    by (cases st) auto
  from Cons.prems obtain b where b: "condition r t = Inr b"
    by auto
  from Cons.prems have rest: "\<forall>r\<in>set rs. \<exists>b. condition r t = Inr b"
    by simp
  from Cons.IH [OF rest] b show ?case
    by (simp add: st)
qed

lemma init_conditions_num:
  assumes "\<not> not_number (d ''amount'')" and "\<not> not_number (d ''hour'')" and "\<not> not_number (d ''amount_log'')"
  shows "\<forall>r\<in>set (rules (RuleBasedFraudDetector_init\<lparr>thresholds := th\<rparr>)).
           \<exists>b. condition r (Dict d) = Inr b"
proof -
  from assms have n: "\<not> not_number (Some (case d ''amount'' of None \<Rightarrow> PInt 0 | Some v \<Rightarrow> v))"
    "\<not> not_number (Some (case d ''hour'' of None \<Rightarrow> PInt 12 | Some v \<Rightarrow> v))"
    "\<not> not_number (Some (case d ''amount_log'' of None \<Rightarrow> PInt 0 | Some v \<Rightarrow> v))"
    by (simp_all add: not_number_default)
  from py_gt_num [OF n(1)] py_lt_num [OF n(2)] py_gt_num [OF n(2)] py_gt_num [OF n(3)]
  show ?thesis
    by (simp add: RuleBasedFraudDetector_init_def check_amount_gt_50000_def
        check_amount_gt_10000_def check_hour_lt_6_def check_hour_gt_22_def
        check_amount_log_gt_12_def)
qed

lemma py_int_ge_num: "\<not> not_number (Some v) \<Longrightarrow> \<exists>b. py_int_ge i v = Inr b"
proof (cases v)
  case (PFloat f)
  then show ?thesis by (cases f) auto
qed simp_all

lemma predict_any_thresholds:
  assumes run: "\<exists>st. run_rules_predict (rules self) t (0, []) = Inr st"
    and high: "thresholds self ''HIGH'' = Some high" "\<not> not_number (Some high)"
    and medium: "thresholds self ''MEDIUM'' = Some medium" "\<not> not_number (Some medium)"
  shows "\<exists>r. predict self t = Inr r"
proof -
  from run obtain s l where st: "run_rules_predict (rules self) t (0, []) = Inr (s, l)"
    by auto
  from py_int_ge_num [OF high(2), of "min s 100"] py_int_ge_num [OF medium(2), of "min s 100"]
  obtain b1 b2 where "py_int_ge (min s 100) high = Inr b1" "py_int_ge (min s 100) medium = Inr b2"
    by blast
  with st high(1) medium(1) show ?thesis
    by (cases b1; cases b2) (simp_all add: predict_def py_index_def Let_def)
qed

lemma predict_level:
  assumes "thresholds self ''HIGH'' = Some (PInt h)"
    and "thresholds self ''MEDIUM'' = Some (PInt m)"
    and "predict self t = Inr r"
  shows "risk_level r =
    (if h \<le> risk_score r then ''HIGH'' else if m \<le> risk_score r then ''MEDIUM'' else ''LOW'')"
  using assms
  by (auto simp: predict_def py_index_def bindE_eq_Inr Let_def split_def split: if_splits)

lemma predict_init_range:
  assumes "predict (RuleBasedFraudDetector_init\<lparr>thresholds := th\<rparr>) t = Inr r"
  shows "0 \<le> risk_score r \<and> risk_score r \<le> 100"
proof -
  from predict_Inr(1) [OF assms]
  have "risk_score r =
      min (sum_list (map score (filter (fires t) (rules RuleBasedFraudDetector_init)))) 100"
    by simp
  with sum_filter_bounds [OF init_scores_nonneg, of "fires t"] show ?thesis
    by simp
qed

lemma predict_follows_valid_bands:
  assumes bs: "bands_of_thresholds th = Some bs" and valid: "spec_bands_valid bs"
    and r: "predict (RuleBasedFraudDetector_init\<lparr>thresholds := th\<rparr>) t = Inr r"
  shows "\<forall>b\<in>set bs. in_band (risk_score r) b \<longleftrightarrow> risk_level r = fst b"
proof -
  from bs obtain l m h where th: "th ''LOW'' = Some (PInt l)" "th ''MEDIUM'' = Some (PInt m)"
    "th ''HIGH'' = Some (PInt h)"
    and bands: "bs = [(''LOW'', (l, m)), (''MEDIUM'', (m, h)), (''HIGH'', (h, 100))]"
    by (auto simp: bands_of_thresholds_def split: option.splits pyval.splits)
  from valid bands have ord: "l = 0" "0 < m" "m < h" "h < 100"
    by (simp_all add: spec_bands_valid_def)
  from th have "thresholds (RuleBasedFraudDetector_init\<lparr>thresholds := th\<rparr>) ''HIGH'' = Some (PInt h)"
    "thresholds (RuleBasedFraudDetector_init\<lparr>thresholds := th\<rparr>) ''MEDIUM'' = Some (PInt m)"
    by simp_all
  note level = predict_level [OF this r]
  note range = predict_init_range [OF r]
  have low: "in_band (risk_score r) (''LOW'', (l, m)) \<longleftrightarrow> risk_level r = ''LOW''"
    using level range ord by (simp add: in_band_def)
  have medium: "in_band (risk_score r) (''MEDIUM'', (m, h)) \<longleftrightarrow> risk_level r = ''MEDIUM''"
    using level range ord by (simp add: in_band_def)
  have high: "in_band (risk_score r) (''HIGH'', (h, 100)) \<longleftrightarrow> risk_level r = ''HIGH''"
    using level range ord by (auto simp: in_band_def)
  from low medium high show ?thesis
    by (simp add: bands)
qed

lemma init_bands: "bands_of_thresholds (thresholds RuleBasedFraudDetector_init) = Some RISK_LEVELS"
  by (simp add: bands_of_thresholds_def RuleBasedFraudDetector_init_def RISK_LEVELS_def)

lemma RISK_LEVELS_valid: "spec_bands_valid RISK_LEVELS"
  by (simp add: spec_bands_valid_def RISK_LEVELS_def)

section \<open>The claims\<close>

text \<open>
  C1. For every transaction record, the \<^verbatim>\<open>risk_score\<close> returned by
  \<^verbatim>\<open>calculate_final_score\<close> (both fallback scorers) and by \<^verbatim>\<open>predict\<close> lies in
  the closed interval from 0 to 100, however many rules fire: it is the minimum of 100 and
  the plain sum of the points of the rules that fire, so the only cap is the one on the
  final sum.
\<close>

theorem risk_score_in_range:
  "(calculate_final_score_app fs t = Inr ra \<longrightarrow>
      0 \<le> risk_score ra \<and> risk_score ra \<le> 100 \<and>
      (\<forall>a h n w. py_get t ''amount'' (PInt 0) = Inr a \<and> py_get t ''hour'' (PInt 12) = Inr h \<and>
         py_get t ''txns_last_1h'' (PInt 0) = Inr n \<and>
         py_get t ''is_new_recipient'' (PInt 0) = Inr w \<longrightarrow>
         risk_score ra =
           min ((if py_gt a 50000 = Inr True then 40 else if py_gt a 10000 = Inr True then 30 else 0)
                + (if py_lt h 6 = Inr True then 25 else 0)
                + (if py_gt n 5 = Inr True then 30 else 0)
                + (if py_eq w 1 then 25 else 0)) 100)) \<and>
   (calculate_final_score_demo t = Inr rd \<longrightarrow>
      0 \<le> risk_score rd \<and> risk_score rd \<le> 100 \<and>
      risk_score rd =
        min (sum_list (map (\<lambda>r. snd (snd r)) (filter (fires_demo t) FallbackScorer_rules))) 100) \<and>
   (predict RuleBasedFraudDetector_init t = Inr rp \<longrightarrow>
      0 \<le> risk_score rp \<and> risk_score rp \<le> 100 \<and>
      risk_score rp =
        min (sum_list (map score (filter (fires t) (rules RuleBasedFraudDetector_init)))) 100)"
proof (intro conjI impI)
  assume ra: "calculate_final_score_app fs t = Inr ra"
  from calculate_final_score_app_Inr [OF ra] obtain raw reasons where
    run: "apply_rules_app fs t = Inr (raw, reasons)" and sc: "risk_score ra = min raw 100"
    by blast
  from scored_is_Dict [OF run] obtain d where t: "t = Dict d"
    by blast
  have "\<exists>a h n w. py_get t ''amount'' (PInt 0) = Inr a \<and> py_get t ''hour'' (PInt 12) = Inr h \<and>
         py_get t ''txns_last_1h'' (PInt 0) = Inr n \<and>
         py_get t ''is_new_recipient'' (PInt 0) = Inr w"
    by (simp add: t)
  then obtain a h n w where g: "py_get t ''amount'' (PInt 0) = Inr a"
    "py_get t ''hour'' (PInt 12) = Inr h" "py_get t ''txns_last_1h'' (PInt 0) = Inr n"
    "py_get t ''is_new_recipient'' (PInt 0) = Inr w"
    by blast
  from apply_rules_app_Inr(1) [OF run g] have "0 \<le> raw"
    by simp
  with sc show "0 \<le> risk_score ra" and "risk_score ra \<le> 100"
    by simp_all
  show "\<forall>a h n w. py_get t ''amount'' (PInt 0) = Inr a \<and> py_get t ''hour'' (PInt 12) = Inr h \<and>
         py_get t ''txns_last_1h'' (PInt 0) = Inr n \<and>
         py_get t ''is_new_recipient'' (PInt 0) = Inr w \<longrightarrow>
         risk_score ra =
           min ((if py_gt a 50000 = Inr True then 40 else if py_gt a 10000 = Inr True then 30 else 0)
                + (if py_lt h 6 = Inr True then 25 else 0)
                + (if py_gt n 5 = Inr True then 30 else 0)
                + (if py_eq w 1 then 25 else 0)) 100"
    using apply_rules_app_Inr(1) [OF run] sc by blast
next
  assume rd: "calculate_final_score_demo t = Inr rd"
  note sc = calculate_final_score_demo_Inr(1) [OF rd]
  from sc show "risk_score rd =
        min (sum_list (map (\<lambda>r. snd (snd r)) (filter (fires_demo t) FallbackScorer_rules))) 100" .
  from sum_filter_bounds [OF demo_points_nonneg, of "fires_demo t"] sc
  show "0 \<le> risk_score rd" and "risk_score rd \<le> 100"
    by simp_all
next
  assume rp: "predict RuleBasedFraudDetector_init t = Inr rp"
  note sc = predict_Inr(1) [OF rp]
  from sc show "risk_score rp =
        min (sum_list (map score (filter (fires t) (rules RuleBasedFraudDetector_init)))) 100" .
  from sum_filter_bounds [OF init_scores_nonneg, of "fires t"] sc
  show "0 \<le> risk_score rp" and "risk_score rp \<le> 100"
    by simp_all
qed

theorem risk_score_in_range_witness:
  "\<exists>ra rd rp.
     calculate_final_score_app (\<lambda>f. []) micropay_scam = Inr ra \<and>
     calculate_final_score_demo micropay_scam = Inr rd \<and>
     predict RuleBasedFraudDetector_init micropay_scam = Inr rp \<and>
     0 \<le> risk_score ra \<and> risk_score ra \<le> 100 \<and>
     0 \<le> risk_score rd \<and> risk_score rd \<le> 100 \<and>
     0 \<le> risk_score rp \<and> risk_score rp \<le> 100"
proof -
  obtain ra where ra: "calculate_final_score_app (\<lambda>f. []) micropay_scam = Inr ra"
    by (simp add: micropay_scam_def app_defs)
  obtain rd where rd: "calculate_final_score_demo micropay_scam = Inr rd"
    by (simp add: micropay_scam_def demo_defs)
  obtain rp where rp: "predict RuleBasedFraudDetector_init micropay_scam = Inr rp"
    by (simp add: micropay_scam_def predict_defs)
  from risk_score_in_range [of "\<lambda>f. []" micropay_scam ra rd rp] ra rd rp
  show ?thesis
    by blast
qed

text \<open>
  C2. For every score from 0 to 100 exactly one declared band of \<^verbatim>\<open>RISK_LEVELS\<close>
  contains the score, and it is the band of the level the chain returns: LOW below 40,
  MEDIUM from 40 and below 70, HIGH from 70 up to 100. Each level comes with its fixed
  action string.
\<close>

theorem risk_level_partition:
  assumes "0 \<le> s" and "s \<le> 100"
  shows "(\<exists>!b. b \<in> set RISK_LEVELS \<and> in_band s b) \<and>
    (\<forall>b\<in>set RISK_LEVELS. in_band s b \<longleftrightarrow> fst (determine_risk_level s) = fst b) \<and>
    (fst (determine_risk_level s) = ''LOW'' \<longleftrightarrow> s < 40) \<and>
    (fst (determine_risk_level s) = ''MEDIUM'' \<longleftrightarrow> 40 \<le> s \<and> s < 70) \<and>
    (fst (determine_risk_level s) = ''HIGH'' \<longleftrightarrow> 70 \<le> s) \<and>
    (fst (determine_risk_level s) = ''HIGH'' \<longrightarrow>
       snd (determine_risk_level s) = ''BLOCK - Requires additional verification'') \<and>
    (fst (determine_risk_level s) = ''MEDIUM'' \<longrightarrow>
       snd (determine_risk_level s) = ''WARN - Review recommended'') \<and>
    (fst (determine_risk_level s) = ''LOW'' \<longrightarrow>
       snd (determine_risk_level s) = ''ALLOW - Appears legitimate'')"
proof -
  note band = in_band_RISK_LEVELS [OF assms]
  from determine_risk_level_in_RISK_LEVELS obtain b where
    b: "b \<in> set RISK_LEVELS" "fst (determine_risk_level s) = fst b"
    by blast
  have "\<exists>!b. b \<in> set RISK_LEVELS \<and> in_band s b"
  proof (rule ex1I [of _ b])
    from b band show "b \<in> set RISK_LEVELS \<and> in_band s b"
      by blast
  next
    fix c
    assume c: "c \<in> set RISK_LEVELS \<and> in_band s c"
    with band b have "fst c = fst b"
      by metis
    with c b(1) show "c = b"
      by (simp add: RISK_LEVELS_names_distinct)
  qed
  with band determine_risk_level_cases [of s] determine_risk_level_action [of s]
  show ?thesis
    by blast
qed

theorem risk_level_partition_witness:
  "(0::int) \<le> 40 \<and> (40::int) \<le> 100 \<and> in_band 40 (''MEDIUM'', (40, 70)) \<and>
   determine_risk_level 40 = (''MEDIUM'', ''WARN - Review recommended'')"
proof -
  have h: "(0::int) \<le> 40" "(40::int) \<le> 100"
    by simp_all
  from risk_level_partition [OF h] show ?thesis
    by (simp add: RISK_LEVELS_def prod_eq_iff)
qed

text \<open>
  C3. For every record whose amount is greater than 50,000, the two rule-list
  scorers (\<^verbatim>\<open>04_run_demo.py\<close> and \<^verbatim>\<open>RuleBasedFraudDetector.predict\<close>) fire both
  amount rules and add 40 and 30 to the same sum. The scorer of \<^verbatim>\<open>app.py\<close> tests the two
  thresholds in one \<^verbatim>\<open>if\<close>/\<^verbatim>\<open>elif\<close>: it adds the 40 points only and never reports
  the 10,000 rule for such a record.
\<close>

theorem amount_rules_over_50000:
  assumes a: "py_get t ''amount'' (PInt 0) = Inr a" and gt: "py_gt a 50000 = Inr True"
  shows
   "(calculate_final_score_demo t = Inr rd \<longrightarrow>
       fires_demo t (FallbackScorer_rules ! 0) \<and> fires_demo t (FallbackScorer_rules ! 1) \<and>
       risk_score rd = min (40 + 30 + sum_list (map (\<lambda>r. snd (snd r))
           (filter (fires_demo t) (drop 2 FallbackScorer_rules)))) 100 \<and>
       take 2 (explanations rd) =
         [''Amount > '' @ rupee @ ''50,000'', ''Amount > '' @ rupee @ ''10,000'']) \<and>
    (predict RuleBasedFraudDetector_init t = Inr rp \<longrightarrow>
       fires t (rules RuleBasedFraudDetector_init ! 0) \<and>
       fires t (rules RuleBasedFraudDetector_init ! 1) \<and>
       risk_score rp = min (40 + 30 + sum_list (map score
           (filter (fires t) (drop 2 (rules RuleBasedFraudDetector_init))))) 100 \<and>
       take 2 (rules_triggered rp) =
         [''Amount > '' @ rupee @ ''50,000'', ''Amount > '' @ rupee @ ''10,000'']) \<and>
    (calculate_final_score_app fs t = Inr ra \<longrightarrow>
       (\<forall>h n w. py_get t ''hour'' (PInt 12) = Inr h \<and>
          py_get t ''txns_last_1h'' (PInt 0) = Inr n \<and>
          py_get t ''is_new_recipient'' (PInt 0) = Inr w \<longrightarrow>
          risk_score ra = min (40 + (if py_lt h 6 = Inr True then 25 else 0)
             + (if py_gt n 5 = Inr True then 30 else 0) + (if py_eq w 1 then 25 else 0)) 100) \<and>
       take 1 (explanations ra) = [''Amount > '' @ rupee_app @ ''50,000''] \<and>
       ''Amount > '' @ rupee_app @ ''10,000'' \<notin> set (explanations ra))"
proof (intro conjI impI)
  have f0: "fires_demo t (FallbackScorer_rules ! 0)" and f1: "fires_demo t (FallbackScorer_rules ! 1)"
    using a gt py_gt_mono [OF gt, of 10000]
    by (simp_all add: FallbackScorer_rules_def fires_demo_def)
  assume rd: "calculate_final_score_demo t = Inr rd"
  show "fires_demo t (FallbackScorer_rules ! 0)" by (rule f0)
  show "fires_demo t (FallbackScorer_rules ! 1)" by (rule f1)
  have "risk_score rd = min (sum_list (map (\<lambda>r. snd (snd r))
      (FallbackScorer_rules ! 0 # FallbackScorer_rules ! 1 #
           filter (fires_demo t) (drop 2 FallbackScorer_rules)))) 100"
    using calculate_final_score_demo_Inr(1) [OF rd] filter_fires_demo_over_50000 [OF a gt]
    by simp
  then show "risk_score rd = min (40 + 30 + sum_list (map (\<lambda>r. snd (snd r))
           (filter (fires_demo t) (drop 2 FallbackScorer_rules)))) 100"
    by (simp add: FallbackScorer_rules_def)
  have "explanations rd = take 3 (map fst
      (FallbackScorer_rules ! 0 # FallbackScorer_rules ! 1 #
           filter (fires_demo t) (drop 2 FallbackScorer_rules)))"
    using calculate_final_score_demo_Inr(2) [OF rd] filter_fires_demo_over_50000 [OF a gt]
    by simp
  then show "take 2 (explanations rd) =
         [''Amount > '' @ rupee @ ''50,000'', ''Amount > '' @ rupee @ ''10,000'']"
    by (simp add: FallbackScorer_rules_def)
next
  have f0: "fires t (rules RuleBasedFraudDetector_init ! 0)"
    and f1: "fires t (rules RuleBasedFraudDetector_init ! 1)"
    using a gt py_gt_mono [OF gt, of 10000]
    by (simp_all add: RuleBasedFraudDetector_init_def fires_def check_amount_gt_50000_def
      check_amount_gt_10000_def)
  assume rp: "predict RuleBasedFraudDetector_init t = Inr rp"
  show "fires t (rules RuleBasedFraudDetector_init ! 0)" by (rule f0)
  show "fires t (rules RuleBasedFraudDetector_init ! 1)" by (rule f1)
  note split = filter_fires_over_50000 [OF a gt]
  have "risk_score rp = min (sum_list (map score
      (rules RuleBasedFraudDetector_init ! 0 # rules RuleBasedFraudDetector_init ! 1 #
           filter (fires t) (drop 2 (rules RuleBasedFraudDetector_init))))) 100"
    using predict_Inr(1) [OF rp] split by simp
  then show "risk_score rp = min (40 + 30 + sum_list (map score
           (filter (fires t) (drop 2 (rules RuleBasedFraudDetector_init))))) 100"
    by (simp add: RuleBasedFraudDetector_init_def)
  have "rules_triggered rp = map description
      (rules RuleBasedFraudDetector_init ! 0 # rules RuleBasedFraudDetector_init ! 1 #
           filter (fires t) (drop 2 (rules RuleBasedFraudDetector_init)))"
    using predict_Inr(2) [OF rp] split by simp
  then show "take 2 (rules_triggered rp) =
         [''Amount > '' @ rupee @ ''50,000'', ''Amount > '' @ rupee @ ''10,000'']"
    by (simp add: RuleBasedFraudDetector_init_def)
next
  assume ra: "calculate_final_score_app fs t = Inr ra"
  from calculate_final_score_app_Inr [OF ra] obtain raw reasons where
    run: "apply_rules_app fs t = Inr (raw, reasons)" and sc: "risk_score ra = min raw 100"
    and ex: "explanations ra = reasons"
    by blast
  show "\<forall>h n w. py_get t ''hour'' (PInt 12) = Inr h \<and>
          py_get t ''txns_last_1h'' (PInt 0) = Inr n \<and>
          py_get t ''is_new_recipient'' (PInt 0) = Inr w \<longrightarrow>
          risk_score ra = min (40 + (if py_lt h 6 = Inr True then 25 else 0)
             + (if py_gt n 5 = Inr True then 30 else 0) + (if py_eq w 1 then 25 else 0)) 100"
    using apply_rules_app_Inr(1) [OF run a] sc gt by simp
  from scored_is_Dict [OF run] obtain d where t: "t = Dict d"
    by blast
  have "\<exists>h n w. py_get t ''hour'' (PInt 12) = Inr h \<and>
         py_get t ''txns_last_1h'' (PInt 0) = Inr n \<and>
         py_get t ''is_new_recipient'' (PInt 0) = Inr w"
    by (simp add: t)
  then obtain h n w where g: "py_get t ''hour'' (PInt 12) = Inr h"
    "py_get t ''txns_last_1h'' (PInt 0) = Inr n"
    "py_get t ''is_new_recipient'' (PInt 0) = Inr w"
    by blast
  note rs = apply_rules_app_Inr(2) [OF run a g]
  from rs gt ex show "take 1 (explanations ra) = [''Amount > '' @ rupee_app @ ''50,000'']"
    by simp
  from rs gt ex show "''Amount > '' @ rupee_app @ ''10,000'' \<notin> set (explanations ra)"
    by (simp add: rupee_app_def)
qed

theorem amount_rules_over_50000_counterexample:
  "calculate_final_score_app (\<lambda>f. []) (Dict [''amount'' \<mapsto> PInt 60000]) =
     Inr \<lparr>risk_score = 40, risk_level = ''MEDIUM'',
          suggested_action = ''WARN - Review recommended'',
          explanations = [''Amount > '' @ rupee_app @ ''50,000''],
          breakdown = \<lparr>rule_engine_score = 40, ml_probability = 1 / 2, anomaly_score = 0\<rparr>\<rparr>"
  by (simp add: app_defs)

theorem amount_rules_over_50000_witness:
  "py_get (Dict [''amount'' \<mapsto> PInt 60000]) ''amount'' (PInt 0) = Inr (PInt 60000) \<and>
   py_gt (PInt 60000) 50000 = Inr True \<and>
   calculate_final_score_demo (Dict [''amount'' \<mapsto> PInt 60000]) =
     Inr \<lparr>risk_score = 70, risk_level = ''HIGH'',
          suggested_action = ''BLOCK - Requires additional verification'',
          explanations = [''Amount > '' @ rupee @ ''50,000'', ''Amount > '' @ rupee @ ''10,000'']\<rparr> \<and>
   fires_demo (Dict [''amount'' \<mapsto> PInt 60000]) (FallbackScorer_rules ! 0) \<and>
   fires_demo (Dict [''amount'' \<mapsto> PInt 60000]) (FallbackScorer_rules ! 1) \<and>
   (\<exists>rp. predict RuleBasedFraudDetector_init (Dict [''amount'' \<mapsto> PInt 60000]) = Inr rp \<and>
      take 2 (rules_triggered rp) =
        [''Amount > '' @ rupee @ ''50,000'', ''Amount > '' @ rupee @ ''10,000'']) \<and>
   (\<exists>ra. calculate_final_score_app (\<lambda>f. []) (Dict [''amount'' \<mapsto> PInt 60000]) = Inr ra \<and>
      take 1 (explanations ra) = [''Amount > '' @ rupee_app @ ''50,000''] \<and>
      ''Amount > '' @ rupee_app @ ''10,000'' \<notin> set (explanations ra))"
proof -
  let ?t = "Dict [''amount'' \<mapsto> PInt 60000]"
  let ?rd = "\<lparr>risk_score = 70, risk_level = ''HIGH'',
          suggested_action = ''BLOCK - Requires additional verification'',
          explanations = [''Amount > '' @ rupee @ ''50,000'', ''Amount > '' @ rupee @ ''10,000'']\<rparr>"
  have a: "py_get ?t ''amount'' (PInt 0) = Inr (PInt 60000)"
    and gt: "py_gt (PInt 60000) 50000 = Inr True"
    by simp_all
  have rd: "calculate_final_score_demo ?t = Inr ?rd"
    by (simp add: demo_defs)
  obtain rp where rp: "predict RuleBasedFraudDetector_init ?t = Inr rp"
    by (simp add: predict_defs)
  obtain ra where ra: "calculate_final_score_app (\<lambda>f. []) ?t = Inr ra"
    by (simp add: app_defs)
  note th = amount_rules_over_50000 [OF a gt, of ?rd rp "\<lambda>f. []" ra]
  from th rd have 1: "fires_demo ?t (FallbackScorer_rules ! 0)"
    "fires_demo ?t (FallbackScorer_rules ! 1)"
    by blast+
  from th rp have 2: "take 2 (rules_triggered rp) =
        [''Amount > '' @ rupee @ ''50,000'', ''Amount > '' @ rupee @ ''10,000'']"
    by blast
  from th ra have 3: "take 1 (explanations ra) = [''Amount > '' @ rupee_app @ ''50,000'']"
    "''Amount > '' @ rupee_app @ ''10,000'' \<notin> set (explanations ra)"
    by blast+
  from a gt rd 1 2 3 rp ra show ?thesis
    by blast
qed

text \<open>
  C4. Scoring the record \<^verbatim>\<open>{amount: 50000, hour: 3, txns_last_1h: 8,
  is_new_recipient: 1}\<close> does not fire the rule for amounts over 50,000, since 50000 is
  not greater than 50000. It fires the rule for amounts over 10,000 (30 points), the
  late-night rule (25), the velocity rule (30) and the new-recipient rule (25): a sum of
  110, capped to the score 100, level HIGH, action BLOCK - Requires additional
  verification.
\<close>

theorem micropay_scam_result:
  "calculate_final_score_app fs micropay_scam =
     Inr \<lparr>risk_score = 100, risk_level = ''HIGH'',
          suggested_action = ''BLOCK - Requires additional verification'',
          explanations = [''Amount > '' @ rupee_app @ ''10,000'',
            ''Late night transaction (12AM-6AM)'', ''High velocity (8 transactions/hour)'',
            ''First time sending to this recipient''],
          breakdown = \<lparr>rule_engine_score = 100, ml_probability = 1 / 2, anomaly_score = 0\<rparr>\<rparr> \<and>
   apply_rules_app fs micropay_scam =
     Inr (30 + 25 + 30 + 25, [''Amount > '' @ rupee_app @ ''10,000'',
            ''Late night transaction (12AM-6AM)'', ''High velocity (8 transactions/hour)'',
            ''First time sending to this recipient'']) \<and>
   calculate_final_score_demo micropay_scam =
     Inr \<lparr>risk_score = 100, risk_level = ''HIGH'',
          suggested_action = ''BLOCK - Requires additional verification'',
          explanations = [''Amount > '' @ rupee @ ''10,000'', ''Late night (12AM-6AM)'',
            ''New recipient'']\<rparr> \<and>
   run_rules_demo FallbackScorer_rules micropay_scam (0, []) =
     Inr (30 + 25 + 25 + 30, [''Amount > '' @ rupee @ ''10,000'', ''Late night (12AM-6AM)'',
            ''New recipient'', ''High velocity''])"
  by (simp add: micropay_scam_def app_defs demo_defs)

theorem micropay_scam_counterexample:
  "apply_rules_app (\<lambda>f. []) micropay_scam =
     Inr (110, [''Amount > '' @ rupee_app @ ''10,000'',
            ''Late night transaction (12AM-6AM)'', ''High velocity (8 transactions/hour)'',
            ''First time sending to this recipient'']) \<and>
   run_rules_demo FallbackScorer_rules micropay_scam (0, []) =
     Inr (110, [''Amount > '' @ rupee @ ''10,000'', ''Late night (12AM-6AM)'',
            ''New recipient'', ''High velocity'']) \<and>
   \<not> fires_demo micropay_scam (FallbackScorer_rules ! 0)"
  by (simp add: micropay_scam_def app_defs demo_defs fires_demo_def)

text \<open>
  C5. For every record whose values are ints, floats, bools, strings or \<^verbatim>\<open>None\<close>:
  a field that is absent from the record is read as its default (\<^verbatim>\<open>amount\<close> 0,
  \<^verbatim>\<open>hour\<close> 12, \<^verbatim>\<open>txns_last_1h\<close> 0, \<^verbatim>\<open>is_new_recipient\<close> 0). The scorers of
  \<^verbatim>\<open>app.py\<close> and \<^verbatim>\<open>04_run_demo.py\<close> return for a record what they return for the
  record with the defaults filled in, and no absent field raises. Scoring returns a
  result whenever each of \<^verbatim>\<open>amount\<close>, \<^verbatim>\<open>hour\<close>, \<^verbatim>\<open>txns_last_1h\<close> is absent or
  holds an int, a float or a bool; when one of them is present with a string or with
  \<^verbatim>\<open>None\<close>, the comparison raises TypeError.
\<close>

theorem scoring_defaults_and_types:
  "calculate_final_score_app fs (Dict d) = calculate_final_score_app fs (Dict (field_defaults ++ d)) \<and>
   calculate_final_score_demo (Dict d) = calculate_final_score_demo (Dict (field_defaults ++ d)) \<and>
   (numeric_fields d \<longrightarrow>
      (\<exists>r. calculate_final_score_app fs (Dict d) = Inr r) \<and>
      (\<exists>r. calculate_final_score_demo (Dict d) = Inr r)) \<and>
   (\<not> numeric_fields d \<longrightarrow>
      calculate_final_score_app fs (Dict d) = Inl TypeError \<and>
      calculate_final_score_demo (Dict d) = Inl TypeError)"
  using calculate_final_score_app_defaults [of fs d] calculate_final_score_demo_defaults [of d]
    calculate_final_score_app_num [of d fs] calculate_final_score_demo_num [of d]
    calculate_final_score_app_str [of d fs] calculate_final_score_demo_str [of d]
  by simp

theorem scoring_defaults_and_types_counterexample:
  "calculate_final_score_app (\<lambda>f. []) (Dict [''amount'' \<mapsto> PStr ''500'', ''hour'' \<mapsto> PStr ''14'']) =
     Inl TypeError \<and>
   calculate_final_score_demo (Dict [''amount'' \<mapsto> PStr ''500'', ''hour'' \<mapsto> PStr ''14'']) =
     Inl TypeError"
  by (simp add: app_defs demo_defs)

theorem scoring_defaults_and_types_witness:
  "numeric_fields Map.empty \<and>
   calculate_final_score_app (\<lambda>f. []) (Dict Map.empty) =
     Inr \<lparr>risk_score = 0, risk_level = ''LOW'', suggested_action = ''ALLOW - Appears legitimate'',
          explanations = [],
          breakdown = \<lparr>rule_engine_score = 0, ml_probability = 1 / 2, anomaly_score = 0\<rparr>\<rparr> \<and>
   (\<exists>r. calculate_final_score_demo (Dict Map.empty) = Inr r) \<and>
   numeric_fields [''amount'' \<mapsto> PFloat (FVal 1500), ''hour'' \<mapsto> PInt 15, ''txns_last_1h'' \<mapsto> PBool True] \<and>
   (\<exists>r. calculate_final_score_app (\<lambda>f. [])
      (Dict [''amount'' \<mapsto> PFloat (FVal 1500), ''hour'' \<mapsto> PInt 15, ''txns_last_1h'' \<mapsto> PBool True]) =
      Inr r) \<and>
   \<not> numeric_fields [''txns_last_1h'' \<mapsto> PStr ''3''] \<and>
   calculate_final_score_app (\<lambda>f. []) (Dict [''txns_last_1h'' \<mapsto> PStr ''3'']) = Inl TypeError \<and>
   calculate_final_score_demo (Dict [''txns_last_1h'' \<mapsto> PStr ''3'']) = Inl TypeError \<and>
   \<not> numeric_fields [''amount'' \<mapsto> PNone] \<and>
   calculate_final_score_app (\<lambda>f. []) (Dict [''amount'' \<mapsto> PNone]) = Inl TypeError \<and>
   calculate_final_score_demo (Dict [''amount'' \<mapsto> PNone]) = Inl TypeError"
proof -
  let ?num = "[''amount'' \<mapsto> PFloat (FVal 1500), ''hour'' \<mapsto> PInt 15, ''txns_last_1h'' \<mapsto> PBool True]"
  have n: "numeric_fields Map.empty" "numeric_fields ?num"
    and s: "\<not> numeric_fields [''txns_last_1h'' \<mapsto> PStr ''3'']"
      "\<not> numeric_fields [''amount'' \<mapsto> PNone]"
    by (simp_all add: numeric_fields_def)
  have e: "calculate_final_score_app (\<lambda>f. []) (Dict Map.empty) =
     Inr \<lparr>risk_score = 0, risk_level = ''LOW'', suggested_action = ''ALLOW - Appears legitimate'',
          explanations = [],
          breakdown = \<lparr>rule_engine_score = 0, ml_probability = 1 / 2, anomaly_score = 0\<rparr>\<rparr>"
    by (simp add: app_defs)
  from scoring_defaults_and_types [of "\<lambda>f. []" Map.empty] n(1)
  have 1: "\<exists>r. calculate_final_score_demo (Dict Map.empty) = Inr r"
    by blast
  from scoring_defaults_and_types [of "\<lambda>f. []" ?num] n(2)
  have 2: "\<exists>r. calculate_final_score_app (\<lambda>f. []) (Dict ?num) = Inr r"
    by blast
  from scoring_defaults_and_types [of "\<lambda>f. []" "[''txns_last_1h'' \<mapsto> PStr ''3'']"] s(1)
  have 3: "calculate_final_score_app (\<lambda>f. []) (Dict [''txns_last_1h'' \<mapsto> PStr ''3'']) = Inl TypeError"
    "calculate_final_score_demo (Dict [''txns_last_1h'' \<mapsto> PStr ''3'']) = Inl TypeError"
    by blast+
  from scoring_defaults_and_types [of "\<lambda>f. []" "[''amount'' \<mapsto> PNone]"] s(2)
  have 4: "calculate_final_score_app (\<lambda>f. []) (Dict [''amount'' \<mapsto> PNone]) = Inl TypeError"
    "calculate_final_score_demo (Dict [''amount'' \<mapsto> PNone]) = Inl TypeError"
    by blast+
  from n s e 1 2 3 4 show ?thesis
    by blast
qed

text \<open>
  C6. The reasons are collected in the order in which the rules are
  declared, not by points, and the list is empty when no rule fires. The scorer of
  \<^verbatim>\<open>app.py\<close> returns all of them as \<^verbatim>\<open>explanations\<close>; the scorer of
  \<^verbatim>\<open>04_run_demo.py\<close> returns the first three only (\<^verbatim>\<open>reasons[:3]\<close>).
\<close>

theorem explanations_in_rule_order:
  "(calculate_final_score_demo t = Inr rd \<longrightarrow>
      explanations rd = take 3 (map fst (filter (fires_demo t) FallbackScorer_rules))) \<and>
   (calculate_final_score_app fs t = Inr ra \<longrightarrow>
      (\<forall>a h n w. py_get t ''amount'' (PInt 0) = Inr a \<and> py_get t ''hour'' (PInt 12) = Inr h \<and>
         py_get t ''txns_last_1h'' (PInt 0) = Inr n \<and>
         py_get t ''is_new_recipient'' (PInt 0) = Inr w \<longrightarrow>
         explanations ra =
           (if py_gt a 50000 = Inr True then [''Amount > '' @ rupee_app @ ''50,000'']
            else if py_gt a 10000 = Inr True then [''Amount > '' @ rupee_app @ ''10,000''] else [])
           @ (if py_lt h 6 = Inr True then [''Late night transaction (12AM-6AM)''] else [])
           @ (if py_gt n 5 = Inr True
              then [''High velocity ('' @ py_format fs n @ '' transactions/hour)''] else [])
           @ (if py_eq w 1 then [''First time sending to this recipient''] else [])))"
proof (intro conjI impI allI; (elim conjE)?)
  assume "calculate_final_score_demo t = Inr rd"
  then show "explanations rd = take 3 (map fst (filter (fires_demo t) FallbackScorer_rules))"
    by (rule calculate_final_score_demo_Inr(2))
next
  fix a h n w
  assume ra: "calculate_final_score_app fs t = Inr ra"
    and g: "py_get t ''amount'' (PInt 0) = Inr a" "py_get t ''hour'' (PInt 12) = Inr h"
      "py_get t ''txns_last_1h'' (PInt 0) = Inr n" "py_get t ''is_new_recipient'' (PInt 0) = Inr w"
  from calculate_final_score_app_Inr [OF ra] obtain raw reasons where
    run: "apply_rules_app fs t = Inr (raw, reasons)" and ex: "explanations ra = reasons"
    by blast
  from apply_rules_app_Inr(2) [OF run g] ex
  show "explanations ra =
           (if py_gt a 50000 = Inr True then [''Amount > '' @ rupee_app @ ''50,000'']
            else if py_gt a 10000 = Inr True then [''Amount > '' @ rupee_app @ ''10,000''] else [])
           @ (if py_lt h 6 = Inr True then [''Late night transaction (12AM-6AM)''] else [])
           @ (if py_gt n 5 = Inr True
              then [''High velocity ('' @ py_format fs n @ '' transactions/hour)''] else [])
           @ (if py_eq w 1 then [''First time sending to this recipient''] else [])"
    by simp
qed

theorem explanations_in_rule_order_counterexample:
  "calculate_final_score_demo velocity_attack =
     Inr \<lparr>risk_score = 100, risk_level = ''HIGH'',
          suggested_action = ''BLOCK - Requires additional verification'',
          explanations = [''Amount > '' @ rupee @ ''10,000'', ''Late night (12AM-6AM)'',
            ''New recipient'']\<rparr> \<and>
   fires_demo velocity_attack (''High velocity'',
        \<lambda>x. bindE (py_get x ''txns_last_1h'' (PInt 0)) (\<lambda>v. py_gt v 5), 30) \<and>
   FallbackScorer_rules ! 5 = (''High velocity'',
        \<lambda>x. bindE (py_get x ''txns_last_1h'' (PInt 0)) (\<lambda>v. py_gt v 5), 30)"
  by (simp add: velocity_attack_def demo_defs fires_demo_def)

theorem explanations_in_rule_order_witness:
  "calculate_final_score_demo velocity_attack =
     Inr \<lparr>risk_score = 100, risk_level = ''HIGH'',
          suggested_action = ''BLOCK - Requires additional verification'',
          explanations = take 3 (map fst (filter (fires_demo velocity_attack) FallbackScorer_rules))\<rparr> \<and>
   (\<exists>ra. calculate_final_score_app (\<lambda>f. []) velocity_attack = Inr ra \<and>
      explanations ra = [''Amount > '' @ rupee_app @ ''10,000'',
            ''Late night transaction (12AM-6AM)'', ''High velocity (9 transactions/hour)'',
            ''First time sending to this recipient''])"
proof -
  let ?rd = "\<lparr>risk_score = 100, risk_level = ''HIGH'',
          suggested_action = ''BLOCK - Requires additional verification'',
          explanations = [''Amount > '' @ rupee @ ''10,000'', ''Late night (12AM-6AM)'',
            ''New recipient'']\<rparr>"
  have rd: "calculate_final_score_demo velocity_attack = Inr ?rd"
    by (simp add: velocity_attack_def demo_defs)
  obtain ra where ra: "calculate_final_score_app (\<lambda>f. []) velocity_attack = Inr ra"
    by (simp add: velocity_attack_def app_defs)
  have g: "py_get velocity_attack ''amount'' (PInt 0) = Inr (PInt 20000)"
    "py_get velocity_attack ''hour'' (PInt 12) = Inr (PInt 2)"
    "py_get velocity_attack ''txns_last_1h'' (PInt 0) = Inr (PInt 9)"
    "py_get velocity_attack ''is_new_recipient'' (PInt 0) = Inr (PInt 1)"
    by (simp_all add: velocity_attack_def)
  note th = explanations_in_rule_order [of velocity_attack ?rd "\<lambda>f. []" ra]
  from th rd have "explanations ?rd =
      take 3 (map fst (filter (fires_demo velocity_attack) FallbackScorer_rules))"
    by blast
  then have d: "[''Amount > '' @ rupee @ ''10,000'', ''Late night (12AM-6AM)'', ''New recipient''] =
      take 3 (map fst (filter (fires_demo velocity_attack) FallbackScorer_rules))"
    by simp
  from th ra g have "explanations ra =
           (if py_gt (PInt 20000) 50000 = Inr True then [''Amount > '' @ rupee_app @ ''50,000'']
            else if py_gt (PInt 20000) 10000 = Inr True
              then [''Amount > '' @ rupee_app @ ''10,000''] else [])
           @ (if py_lt (PInt 2) 6 = Inr True then [''Late night transaction (12AM-6AM)''] else [])
           @ (if py_gt (PInt 9) 5 = Inr True
              then [''High velocity ('' @ py_format (\<lambda>f. []) (PInt 9) @ '' transactions/hour)'']
              else [])
           @ (if py_eq (PInt 1) 1 then [''First time sending to this recipient''] else [])"
    by blast
  then have a: "explanations ra = [''Amount > '' @ rupee_app @ ''10,000'',
            ''Late night transaction (12AM-6AM)'', ''High velocity (9 transactions/hour)'',
            ''First time sending to this recipient'']"
    by (simp add: str_int_def str_nat.simps digit_char_def)
  from rd d have "calculate_final_score_demo velocity_attack =
     Inr \<lparr>risk_score = 100, risk_level = ''HIGH'',
          suggested_action = ''BLOCK - Requires additional verification'',
          explanations = take 3 (map fst (filter (fires_demo velocity_attack) FallbackScorer_rules))\<rparr>"
    by simp
  with ra a show ?thesis
    by blast
qed

text \<open>
  C7. The batch loops of \<^verbatim>\<open>app.py\<close> and \<^verbatim>\<open>04_run_demo.py\<close> have no
  handler and no count of skipped records. When every element of the input scores without
  an exception, the batch returns one row per element, in the order of the input, each
  with the verdict of its element. When some element raises (a dict with a string where a
  number is compared, or an element that is not a dict), the exception of the first such
  element leaves the loop: the whole batch raises and returns no rows.
\<close>

theorem batch_all_or_nothing:
  "((\<forall>t\<in>set ts. \<exists>r. calculate_final_score_app fs t = Inr r) \<longrightarrow>
      (\<exists>rows. analyze_batch_app fs ts = Inr rows \<and> length rows = length ts \<and>
         (\<forall>j<length ts. \<exists>r. calculate_final_score_app fs (ts ! j) = Inr r \<and>
            risk_score (rows ! j) = risk_score r \<and> risk_level (rows ! j) = risk_level r \<and>
            suggested_action (rows ! j) = suggested_action r))) \<and>
   ((\<forall>t\<in>set pre. \<exists>r. calculate_final_score_app fs t = Inr r) \<and>
      calculate_final_score_app fs bad = Inl e \<longrightarrow>
      analyze_batch_app fs (pre @ bad # post) = Inl e) \<and>
   ((\<forall>t\<in>set pre. \<exists>r. calculate_final_score_app fs t = Inr r) \<longrightarrow>
      analyze_batch_app fs (pre @ Scalar v # post) = Inl AttributeError) \<and>
   ((\<forall>t\<in>set ts. \<exists>r. calculate_final_score_demo t = Inr r) \<longrightarrow>
      (\<exists>rows. analyze_batch_demo ts = Inr rows \<and> length rows = length ts \<and>
         (\<forall>j<length ts. \<exists>r. calculate_final_score_demo (ts ! j) = Inr r \<and>
            risk_score (rows ! j) = risk_score r \<and> risk_level (rows ! j) = risk_level r \<and>
            suggested_action (rows ! j) = suggested_action r))) \<and>
   ((\<forall>t\<in>set pre. \<exists>r. calculate_final_score_demo t = Inr r) \<and>
      calculate_final_score_demo bad = Inl e' \<longrightarrow>
      analyze_batch_demo (pre @ bad # post) = Inl e') \<and>
   ((\<forall>t\<in>set pre. \<exists>r. calculate_final_score_demo t = Inr r) \<longrightarrow>
      analyze_batch_demo (pre @ Scalar v # post) = Inl AttributeError)"
proof (intro conjI impI; (elim conjE)?)
  assume ok: "\<forall>t\<in>set ts. \<exists>r. calculate_final_score_app fs t = Inr r"
  from analyze_batch_app_loop_total [OF ok, of 0 "[]"] obtain rows
    where rows: "analyze_batch_app fs ts = Inr rows"
    by (auto simp: analyze_batch_app_def)
  from analyze_batch_app_loop_Inr [OF rows [unfolded analyze_batch_app_def]] rows
  show "\<exists>rows. analyze_batch_app fs ts = Inr rows \<and> length rows = length ts \<and>
         (\<forall>j<length ts. \<exists>r. calculate_final_score_app fs (ts ! j) = Inr r \<and>
            risk_score (rows ! j) = risk_score r \<and> risk_level (rows ! j) = risk_level r \<and>
            suggested_action (rows ! j) = suggested_action r)"
    by fastforce
next
  assume "\<forall>t\<in>set pre. \<exists>r. calculate_final_score_app fs t = Inr r"
    and "calculate_final_score_app fs bad = Inl e"
  then show "analyze_batch_app fs (pre @ bad # post) = Inl e"
    unfolding analyze_batch_app_def by (rule analyze_batch_app_loop_error)
next
  assume "\<forall>t\<in>set pre. \<exists>r. calculate_final_score_app fs t = Inr r"
  then show "analyze_batch_app fs (pre @ Scalar v # post) = Inl AttributeError"
    unfolding analyze_batch_app_def
    by (rule analyze_batch_app_loop_error) (rule calculate_final_score_app_Scalar)
next
  assume ok: "\<forall>t\<in>set ts. \<exists>r. calculate_final_score_demo t = Inr r"
  from analyze_batch_demo_loop_total [OF ok, of 0 "[]"] obtain rows
    where rows: "analyze_batch_demo ts = Inr rows"
    by (auto simp: analyze_batch_demo_def)
  from analyze_batch_demo_loop_Inr [OF rows [unfolded analyze_batch_demo_def]] rows
  show "\<exists>rows. analyze_batch_demo ts = Inr rows \<and> length rows = length ts \<and>
         (\<forall>j<length ts. \<exists>r. calculate_final_score_demo (ts ! j) = Inr r \<and>
            risk_score (rows ! j) = risk_score r \<and> risk_level (rows ! j) = risk_level r \<and>
            suggested_action (rows ! j) = suggested_action r)"
    by fastforce
next
  assume "\<forall>t\<in>set pre. \<exists>r. calculate_final_score_demo t = Inr r"
    and "calculate_final_score_demo bad = Inl e'"
  then show "analyze_batch_demo (pre @ bad # post) = Inl e'"
    unfolding analyze_batch_demo_def by (rule analyze_batch_demo_loop_error)
next
  assume "\<forall>t\<in>set pre. \<exists>r. calculate_final_score_demo t = Inr r"
  then show "analyze_batch_demo (pre @ Scalar v # post) = Inl AttributeError"
    unfolding analyze_batch_demo_def
    by (rule analyze_batch_demo_loop_error) (rule calculate_final_score_demo_Scalar)
qed

theorem batch_all_or_nothing_counterexample:
  "analyze_batch_app (\<lambda>f. []) (replicate 45 (Dict Map.empty) @ replicate 5 (Scalar (PInt 7))) =
     Inl AttributeError \<and>
   analyze_batch_demo (replicate 45 (Dict Map.empty) @ replicate 5 (Scalar (PInt 7))) =
     Inl AttributeError \<and>
   length (replicate 45 (Dict Map.empty) @ replicate 5 (Scalar (PInt 7))) = 50"
proof -
  have five: "replicate 5 (Scalar (PInt 7)) = Scalar (PInt 7) # replicate 4 (Scalar (PInt 7))"
    by (simp add: numeral_eq_Suc)
  have a: "\<forall>t\<in>set (replicate 45 (Dict Map.empty)).
      \<exists>r. calculate_final_score_app (\<lambda>f. []) t = Inr r"
    using empty_record_scores(1) by simp
  have d: "\<forall>t\<in>set (replicate 45 (Dict Map.empty)). \<exists>r. calculate_final_score_demo t = Inr r"
    using empty_record_scores(2) by simp
  from analyze_batch_app_loop_error [OF a calculate_final_score_app_Scalar]
    analyze_batch_demo_loop_error [OF d calculate_final_score_demo_Scalar]
  show ?thesis
    by (simp add: analyze_batch_app_def analyze_batch_demo_def five)
qed

theorem batch_all_or_nothing_witness:
  "(\<exists>rows. analyze_batch_app (\<lambda>f. []) [Dict Map.empty, micropay_scam] = Inr rows \<and>
      length rows = 2) \<and>
   (\<exists>rows. analyze_batch_demo [Dict Map.empty, micropay_scam] = Inr rows \<and> length rows = 2) \<and>
   calculate_final_score_app (\<lambda>f. []) (Dict [''amount'' \<mapsto> PStr ''1,500'']) = Inl TypeError \<and>
   analyze_batch_app (\<lambda>f. []) ([Dict Map.empty] @ Dict [''amount'' \<mapsto> PStr ''1,500''] # [micropay_scam]) =
     Inl TypeError \<and>
   analyze_batch_demo ([Dict Map.empty] @ Dict [''amount'' \<mapsto> PStr ''1,500''] # [micropay_scam]) =
     Inl TypeError \<and>
   analyze_batch_app (\<lambda>f. []) ([Dict Map.empty] @ Scalar (PInt 7) # [micropay_scam]) =
     Inl AttributeError \<and>
   analyze_batch_demo ([Dict Map.empty] @ Scalar (PInt 7) # [micropay_scam]) = Inl AttributeError"
proof -
  let ?bad = "Dict [''amount'' \<mapsto> PStr ''1,500'']"
  have a2: "\<forall>t\<in>set [Dict Map.empty, micropay_scam].
      \<exists>r. calculate_final_score_app (\<lambda>f. []) t = Inr r"
    and d2: "\<forall>t\<in>set [Dict Map.empty, micropay_scam]. \<exists>r. calculate_final_score_demo t = Inr r"
    and a1: "\<forall>t\<in>set [Dict Map.empty]. \<exists>r. calculate_final_score_app (\<lambda>f. []) t = Inr r"
    and d1: "\<forall>t\<in>set [Dict Map.empty]. \<exists>r. calculate_final_score_demo t = Inr r"
    by (simp_all add: micropay_scam_def app_defs demo_defs)
  have ba: "calculate_final_score_app (\<lambda>f. []) ?bad = Inl TypeError"
    and bd: "calculate_final_score_demo ?bad = Inl TypeError"
    by (simp_all add: app_defs demo_defs)
  note th = batch_all_or_nothing [of "[Dict Map.empty, micropay_scam]" "\<lambda>f. []" "[Dict Map.empty]"
      ?bad TypeError "[micropay_scam]" "PInt 7" TypeError]
  from th a2 have 1: "\<exists>rows. analyze_batch_app (\<lambda>f. []) [Dict Map.empty, micropay_scam] = Inr rows \<and>
      length rows = 2"
    by fastforce
  from th d2 have 2: "\<exists>rows. analyze_batch_demo [Dict Map.empty, micropay_scam] = Inr rows \<and>
      length rows = 2"
    by fastforce
  from th a1 ba have 3:
    "analyze_batch_app (\<lambda>f. []) ([Dict Map.empty] @ ?bad # [micropay_scam]) = Inl TypeError"
    by blast
  from th d1 bd have 4:
    "analyze_batch_demo ([Dict Map.empty] @ ?bad # [micropay_scam]) = Inl TypeError"
    by blast
  from th a1 have 5:
    "analyze_batch_app (\<lambda>f. []) ([Dict Map.empty] @ Scalar (PInt 7) # [micropay_scam]) =
       Inl AttributeError"
    by blast
  from th d1 have 6:
    "analyze_batch_demo ([Dict Map.empty] @ Scalar (PInt 7) # [micropay_scam]) = Inl AttributeError"
    by blast
  from 1 2 ba 3 4 5 6 show ?thesis
    by blast
qed

text \<open>
  C8. No scorer checks score bands, at construction or later, and the repository has no
  ConfigurationError. The bands declared in \<^verbatim>\<open>RISK_LEVELS\<close> are contiguous,
  non-overlapping and cover 0 to 100. \<^verbatim>\<open>predict\<close> reads the \<^verbatim>\<open>HIGH\<close> and
  \<^verbatim>\<open>MEDIUM\<close> thresholds of the detector it runs on at every call. With the thresholds
  that \<^verbatim>\<open>__init__\<close> sets, and with any int thresholds that read as valid bands, the
  level it returns is the level of the band that contains the score. It returns a result
  for every record in which \<^verbatim>\<open>amount\<close>, \<^verbatim>\<open>hour\<close> and \<^verbatim>\<open>amount_log\<close> are each
  absent or a number, whenever the \<^verbatim>\<open>HIGH\<close> and \<^verbatim>\<open>MEDIUM\<close> thresholds are present
  and are numbers, whatever their values, valid bands or not.
\<close>

theorem no_band_validation:
  "spec_bands_valid RISK_LEVELS \<and>
   bands_of_thresholds (thresholds RuleBasedFraudDetector_init) = Some RISK_LEVELS \<and>
   (predict RuleBasedFraudDetector_init t = Inr r \<longrightarrow>
      (\<forall>b\<in>set RISK_LEVELS. in_band (risk_score r) b \<longleftrightarrow> risk_level r = fst b)) \<and>
   (bands_of_thresholds th = Some bs \<and> spec_bands_valid bs \<and>
    predict (RuleBasedFraudDetector_init\<lparr>thresholds := th\<rparr>) t = Inr r' \<longrightarrow>
      (\<forall>b\<in>set bs. in_band (risk_score r') b \<longleftrightarrow> risk_level r' = fst b)) \<and>
   (th ''HIGH'' = Some high \<and> th ''MEDIUM'' = Some medium \<and>
    \<not> not_number (Some high) \<and> \<not> not_number (Some medium) \<and>
    \<not> not_number (d ''amount'') \<and> \<not> not_number (d ''hour'') \<and> \<not> not_number (d ''amount_log'') \<longrightarrow>
      (\<exists>r. predict (RuleBasedFraudDetector_init\<lparr>thresholds := th\<rparr>) (Dict d) = Inr r))"
proof (intro conjI impI; (elim conjE)?)
  show "spec_bands_valid RISK_LEVELS"
    by (rule RISK_LEVELS_valid)
  show "bands_of_thresholds (thresholds RuleBasedFraudDetector_init) = Some RISK_LEVELS"
    by (rule init_bands)
next
  assume r: "predict RuleBasedFraudDetector_init t = Inr r"
  have "RuleBasedFraudDetector_init\<lparr>thresholds := thresholds RuleBasedFraudDetector_init\<rparr> =
      RuleBasedFraudDetector_init"
    by simp
  with r have "predict (RuleBasedFraudDetector_init\<lparr>thresholds :=
      thresholds RuleBasedFraudDetector_init\<rparr>) t = Inr r"
    by simp
  from predict_follows_valid_bands [OF init_bands RISK_LEVELS_valid this]
  show "\<forall>b\<in>set RISK_LEVELS. in_band (risk_score r) b \<longleftrightarrow> risk_level r = fst b" .
next
  assume "bands_of_thresholds th = Some bs" and "spec_bands_valid bs"
    and "predict (RuleBasedFraudDetector_init\<lparr>thresholds := th\<rparr>) t = Inr r'"
  then show "\<forall>b\<in>set bs. in_band (risk_score r') b \<longleftrightarrow> risk_level r' = fst b"
    by (rule predict_follows_valid_bands)
next
  assume th: "th ''HIGH'' = Some high" "th ''MEDIUM'' = Some medium"
    and nt: "\<not> not_number (Some high)" "\<not> not_number (Some medium)"
    and n: "\<not> not_number (d ''amount'')" "\<not> not_number (d ''hour'')"
      "\<not> not_number (d ''amount_log'')"
  let ?self = "RuleBasedFraudDetector_init\<lparr>thresholds := th\<rparr>"
  from th have hm: "thresholds ?self ''HIGH'' = Some high" "thresholds ?self ''MEDIUM'' = Some medium"
    by simp_all
  from run_rules_predict_total [OF init_conditions_num [OF n, of th], of "(0, [])"]
  have "\<exists>st. run_rules_predict (rules ?self) (Dict d) (0, []) = Inr st" .
  from predict_any_thresholds [OF this hm(1) nt(1) hm(2) nt(2)]
  show "\<exists>r. predict ?self (Dict d) = Inr r" .
qed

theorem no_band_validation_counterexample:
  "\<not> spec_thresholds_valid [''HIGH'' \<mapsto> PInt 40, ''MEDIUM'' \<mapsto> PInt 70, ''LOW'' \<mapsto> PInt 0] \<and>
   predict (RuleBasedFraudDetector_init\<lparr>thresholds :=
       [''HIGH'' \<mapsto> PInt 40, ''MEDIUM'' \<mapsto> PInt 70, ''LOW'' \<mapsto> PInt 0]\<rparr>)
     (Dict [''amount'' \<mapsto> PInt 20000, ''hour'' \<mapsto> PInt 3]) =
     Inr \<lparr>risk_score = 55, risk_level = ''HIGH'',
          suggested_action = ''BLOCK - Requires additional verification'',
          rules_triggered = [''Amount > '' @ rupee @ ''10,000'',
            ''Transaction during late night (12AM-6AM)'']\<rparr>"
  by (simp add: spec_thresholds_valid_def bands_of_thresholds_def spec_bands_valid_def predict_defs)

theorem no_band_validation_witness:
  "(\<exists>r. predict RuleBasedFraudDetector_init (Dict [''amount'' \<mapsto> PInt 20000, ''hour'' \<mapsto> PInt 3]) =
       Inr r \<and> risk_score r = 55 \<and> risk_level r = ''MEDIUM'' \<and>
       in_band (risk_score r) (''MEDIUM'', (40, 70))) \<and>
   spec_thresholds_valid [''HIGH'' \<mapsto> PInt 50, ''MEDIUM'' \<mapsto> PInt 30, ''LOW'' \<mapsto> PInt 0] \<and>
   (\<exists>r. predict (RuleBasedFraudDetector_init\<lparr>thresholds :=
          [''HIGH'' \<mapsto> PInt 50, ''MEDIUM'' \<mapsto> PInt 30, ''LOW'' \<mapsto> PInt 0]\<rparr>)
        (Dict [''amount'' \<mapsto> PInt 20000, ''hour'' \<mapsto> PInt 3]) = Inr r \<and>
      risk_score r = 55 \<and> risk_level r = ''HIGH'' \<and> in_band (risk_score r) (''HIGH'', (50, 100))) \<and>
   \<not> spec_thresholds_valid [''HIGH'' \<mapsto> PInt 100, ''MEDIUM'' \<mapsto> PFloat (FVal 100)] \<and>
   \<not> not_number (Some (PInt 100)) \<and> \<not> not_number (Some (PFloat (FVal 100))) \<and>
   \<not> not_number ([''amount'' \<mapsto> PInt 1500] ''amount'') \<and>
   (\<exists>r. predict (RuleBasedFraudDetector_init\<lparr>thresholds :=
          [''HIGH'' \<mapsto> PInt 100, ''MEDIUM'' \<mapsto> PFloat (FVal 100)]\<rparr>)
      (Dict [''amount'' \<mapsto> PInt 1500]) = Inr r)"
proof -
  let ?th = "[''HIGH'' \<mapsto> PInt 100, ''MEDIUM'' \<mapsto> PFloat (FVal 100)]"
  let ?ok = "[''HIGH'' \<mapsto> PInt 50, ''MEDIUM'' \<mapsto> PInt 30, ''LOW'' \<mapsto> PInt 0]"
  let ?bs = "[(''LOW'', (0, 30)), (''MEDIUM'', (30, 50)), (''HIGH'', (50::int, 100::int))]"
  let ?d = "[''amount'' \<mapsto> PInt 1500]"
  let ?t = "Dict [''amount'' \<mapsto> PInt 20000, ''hour'' \<mapsto> PInt 3]"
  let ?r = "\<lparr>risk_score = 55, risk_level = ''MEDIUM'',
          suggested_action = ''WARN - Review recommended'',
          rules_triggered = [''Amount > '' @ rupee @ ''10,000'',
            ''Transaction during late night (12AM-6AM)'']\<rparr>"
  let ?r' = "\<lparr>risk_score = 55, risk_level = ''HIGH'',
          suggested_action = ''BLOCK - Requires additional verification'',
          rules_triggered = [''Amount > '' @ rupee @ ''10,000'',
            ''Transaction during late night (12AM-6AM)'']\<rparr>"
  have r: "predict RuleBasedFraudDetector_init ?t = Inr ?r"
    by (simp add: predict_defs)
  have r': "predict (RuleBasedFraudDetector_init\<lparr>thresholds := ?ok\<rparr>) ?t = Inr ?r'"
    by (simp add: predict_defs)
  have m: "(''MEDIUM'', (40, 70)) \<in> set RISK_LEVELS"
    by (simp add: RISK_LEVELS_def)
  have ok: "bands_of_thresholds ?ok = Some ?bs" "spec_bands_valid ?bs"
    by (simp_all add: bands_of_thresholds_def spec_bands_valid_def)
  then have okv: "spec_thresholds_valid ?ok"
    by (simp add: spec_thresholds_valid_def)
  note th1 = no_band_validation [where t = ?t and r = ?r and th = ?ok and bs = ?bs and r' = ?r']
  from th1 r have "\<forall>b\<in>set RISK_LEVELS. in_band (risk_score ?r) b \<longleftrightarrow> risk_level ?r = fst b"
    by blast
  with m have "in_band (risk_score ?r) (''MEDIUM'', (40, 70)) \<longleftrightarrow>
      risk_level ?r = fst (''MEDIUM'', (40::int, 70::int))"
    by blast
  then have 1: "in_band (risk_score ?r) (''MEDIUM'', (40, 70))"
    by simp
  from th1 ok r' have "\<forall>b\<in>set ?bs. in_band (risk_score ?r') b \<longleftrightarrow> risk_level ?r' = fst b"
    by blast
  then have 3: "in_band (risk_score ?r') (''HIGH'', (50, 100))"
    by simp
  have h: "?th ''HIGH'' = Some (PInt 100)" "?th ''MEDIUM'' = Some (PFloat (FVal 100))"
    "\<not> not_number (Some (PInt 100))" "\<not> not_number (Some (PFloat (FVal 100)))"
    "\<not> not_number (?d ''amount'')" "\<not> not_number (?d ''hour'')" "\<not> not_number (?d ''amount_log'')"
    by simp_all
  have v: "\<not> spec_thresholds_valid ?th"
    by (simp add: spec_thresholds_valid_def bands_of_thresholds_def)
  from no_band_validation [where th = ?th and d = ?d and high = "PInt 100"
      and medium = "PFloat (FVal 100)"] h
  have 2: "\<exists>r. predict (RuleBasedFraudDetector_init\<lparr>thresholds := ?th\<rparr>) (Dict ?d) = Inr r"
    by blast
  from r 1 have a: "\<exists>r. predict RuleBasedFraudDetector_init ?t = Inr r \<and> risk_score r = 55 \<and>
      risk_level r = ''MEDIUM'' \<and> in_band (risk_score r) (''MEDIUM'', (40, 70))"
    by (intro exI [of _ ?r]) simp
  from r' 3 have b: "\<exists>r. predict (RuleBasedFraudDetector_init\<lparr>thresholds := ?ok\<rparr>) ?t = Inr r \<and>
      risk_score r = 55 \<and> risk_level r = ''HIGH'' \<and> in_band (risk_score r) (''HIGH'', (50, 100))"
    by (intro exI [of _ ?r']) simp
  from a okv b h v 2 show ?thesis
    by blast
qed

text \<open>
  C9. A record without \<^verbatim>\<open>transaction_id\<close> at position \<open>j\<close> of the input
  gets an identifier determined by \<open>j\<close> alone. The batch loop of \<^verbatim>\<open>app.py\<close> gives
  \<^verbatim>\<open>TXN_\<close> followed by \<open>j\<close> in decimal, padded with zeros on the left to six digits
  (exactly six below 1,000,000; position 3 gives \<^verbatim>\<open>TXN_000003\<close>). The batch loops of
  \<^verbatim>\<open>04_run_demo.py\<close> and of \<^verbatim>\<open>SimpleScorer\<close> give \<^verbatim>\<open>TXN_\<close> followed by \<open>j\<close> in
  decimal without padding (\<^verbatim>\<open>TXN_3\<close>).
\<close>

theorem synthetic_transaction_id:
  "(analyze_batch_app fs ts = Inr rows_a \<and> j < length ts \<and> ts ! j = Dict d \<and>
      d ''transaction_id'' = None \<longrightarrow>
      transaction_id (rows_a ! j) = PStr (''TXN_'' @ format_06d j)) \<and>
   (analyze_batch_demo ts = Inr rows_d \<and> j < length ts \<and> ts ! j = Dict d \<and>
      d ''transaction_id'' = None \<longrightarrow>
      transaction_id (rows_d ! j) = PStr (''TXN_'' @ str_nat j)) \<and>
   (analyze_batch_simple self ts = Inr rows_s \<and> j < length ts \<and> ts ! j = Dict d \<and>
      d ''transaction_id'' = None \<longrightarrow>
      transaction_id (rows_s ! j) = PStr (''TXN_'' @ str_nat j)) \<and>
   (j < 1000000 \<longrightarrow> length (format_06d j) = 6) \<and>
   (\<exists>zs. format_06d j = zs @ str_nat j \<and> set zs \<subseteq> {CHR ''0''}) \<and>
   format_06d 3 = ''000003'' \<and> str_nat 3 = ''3''"
proof (intro conjI impI; (elim conjE)?)
  assume rows: "analyze_batch_app fs ts = Inr rows_a" and j: "j < length ts"
    and d: "ts ! j = Dict d" "d ''transaction_id'' = None"
  from analyze_batch_app_loop_Inr [OF rows [unfolded analyze_batch_app_def]] j
  have "py_get (ts ! j) ''transaction_id'' (PStr (''TXN_'' @ format_06d (0 + j))) =
         Inr (transaction_id (rows_a ! j))"
    by fastforce
  with d show "transaction_id (rows_a ! j) = PStr (''TXN_'' @ format_06d j)"
    by simp
next
  assume rows: "analyze_batch_demo ts = Inr rows_d" and j: "j < length ts"
    and d: "ts ! j = Dict d" "d ''transaction_id'' = None"
  from analyze_batch_demo_loop_Inr [OF rows [unfolded analyze_batch_demo_def]] j
  have "py_get (ts ! j) ''transaction_id'' (PStr (''TXN_'' @ str_nat (0 + j))) =
         Inr (transaction_id (rows_d ! j))"
    by fastforce
  with d show "transaction_id (rows_d ! j) = PStr (''TXN_'' @ str_nat j)"
    by simp
next
  assume rows: "analyze_batch_simple self ts = Inr rows_s" and j: "j < length ts"
    and d: "ts ! j = Dict d" "d ''transaction_id'' = None"
  from analyze_batch_simple_loop_Inr [OF rows [unfolded analyze_batch_simple_def]] j
  have "py_get (ts ! j) ''transaction_id'' (PStr (''TXN_'' @ str_nat (0 + j))) =
         Inr (transaction_id (rows_s ! j))"
    by fastforce
  with d show "transaction_id (rows_s ! j) = PStr (''TXN_'' @ str_nat j)"
    by simp
next
  assume "j < 1000000"
  then show "length (format_06d j) = 6"
    by (rule length_format_06d)
next
  show "\<exists>zs. format_06d j = zs @ str_nat j \<and> set zs \<subseteq> {CHR ''0''}"
    by (rule format_06d_suffix)
  show "format_06d 3 = ''000003''"
    by code_simp
  show "str_nat 3 = ''3''"
    by code_simp
qed

theorem synthetic_transaction_id_counterexample:
  "map_sum id (map transaction_id)
     (analyze_batch_demo [Dict Map.empty, Dict Map.empty, Dict Map.empty, Dict Map.empty]) =
     Inr [PStr ''TXN_0'', PStr ''TXN_1'', PStr ''TXN_2'', PStr ''TXN_3''] \<and>
   map_sum id (map transaction_id)
     (analyze_batch_simple \<lparr>model = RuleBasedFraudDetector_init\<rparr>
        [Dict Map.empty, Dict Map.empty, Dict Map.empty, Dict Map.empty]) =
     Inr [PStr ''TXN_0'', PStr ''TXN_1'', PStr ''TXN_2'', PStr ''TXN_3'']"
  by (simp add: analyze_batch_demo_def analyze_batch_simple_def demo_defs predict_defs
      top_reason_of_def str_nat.simps digit_char_def)

theorem synthetic_transaction_id_witness:
  "(\<exists>rows. analyze_batch_app (\<lambda>f. [])
       [Dict Map.empty, Dict Map.empty, Dict Map.empty, Dict Map.empty] = Inr rows \<and>
      transaction_id (rows ! 3) = PStr ''TXN_000003'') \<and>
   (\<exists>rows. analyze_batch_demo
       [Dict Map.empty, Dict Map.empty, Dict Map.empty, Dict Map.empty] = Inr rows \<and>
      transaction_id (rows ! 3) = PStr ''TXN_3'') \<and>
   (\<exists>rows. analyze_batch_simple \<lparr>model = RuleBasedFraudDetector_init\<rparr>
       [Dict Map.empty, Dict Map.empty, Dict Map.empty, Dict Map.empty] = Inr rows \<and>
      transaction_id (rows ! 3) = PStr ''TXN_3'') \<and>
   length (format_06d 3) = 6"
proof -
  let ?ts = "[Dict Map.empty, Dict Map.empty, Dict Map.empty, Dict Map.empty]"
  let ?self = "\<lparr>model = RuleBasedFraudDetector_init\<rparr>"
  obtain rows_a where a: "analyze_batch_app (\<lambda>f. []) ?ts = Inr rows_a"
    by (simp add: analyze_batch_app_def app_defs)
  obtain rows_d where d: "analyze_batch_demo ?ts = Inr rows_d"
    by (simp add: analyze_batch_demo_def demo_defs)
  obtain rows_s where s: "analyze_batch_simple ?self ?ts = Inr rows_s"
    by (simp add: analyze_batch_simple_def predict_defs)
  have j: "(3::nat) < length ?ts" "?ts ! 3 = Dict Map.empty"
    "(Map.empty :: string \<rightharpoonup> pyval) ''transaction_id'' = None" "(3::nat) < 1000000"
    by simp_all
  note th = synthetic_transaction_id [of "\<lambda>f. []" ?ts rows_a 3 Map.empty rows_d ?self rows_s]
  from th a j have 1: "transaction_id (rows_a ! 3) = PStr (''TXN_'' @ format_06d 3)"
    by blast
  from th d j have 2: "transaction_id (rows_d ! 3) = PStr (''TXN_'' @ str_nat 3)"
    by blast
  from th s j have 3: "transaction_id (rows_s ! 3) = PStr (''TXN_'' @ str_nat 3)"
    by blast
  from th j have 4: "length (format_06d 3) = 6"
    by blast
  from th have 5: "format_06d 3 = ''000003''" "str_nat 3 = ''3''"
    by blast+
  from 1 2 3 5 have "transaction_id (rows_a ! 3) = PStr ''TXN_000003''"
    "transaction_id (rows_d ! 3) = PStr ''TXN_3''" "transaction_id (rows_s ! 3) = PStr ''TXN_3''"
    by simp_all
  with a d s 4 show ?thesis
    by blast
qed

text \<open>
  C10. Every threshold comparison is strict. A record whose amount equals 50,000 gets
  nothing from the rule for amounts over 50,000 (and 30 points from the rule for amounts
  over 10,000); an amount equal to 10,000 gets nothing from either amount rule; an hour
  equal to 6 or to 22 fires no time rule; and a count of 5 transactions in the last hour
  fires no velocity rule. This holds in the three scorers, for an int as for a float.
\<close>

theorem thresholds_strict:
  "(py_get t ''amount'' (PInt 0) = Inr a \<and> py_eq a 50000 \<longrightarrow>
      \<not> fires_demo t (FallbackScorer_rules ! 0) \<and> fires_demo t (FallbackScorer_rules ! 1) \<and>
      check_amount_gt_50000 t = Inr False \<and> check_amount_gt_10000 t = Inr True \<and>
      rule1_amount t (s, l) = Inr (s + 30, l @ [''Amount > '' @ rupee_app @ ''10,000''])) \<and>
   (py_get t ''amount'' (PInt 0) = Inr a \<and> py_eq a 10000 \<longrightarrow>
      \<not> fires_demo t (FallbackScorer_rules ! 0) \<and> \<not> fires_demo t (FallbackScorer_rules ! 1) \<and>
      check_amount_gt_50000 t = Inr False \<and> check_amount_gt_10000 t = Inr False \<and>
      rule1_amount t (s, l) = Inr (s, l)) \<and>
   (py_get t ''hour'' (PInt 12) = Inr h \<and> (py_eq h 6 \<or> py_eq h 22) \<longrightarrow>
      \<not> fires_demo t (FallbackScorer_rules ! 2) \<and> \<not> fires_demo t (FallbackScorer_rules ! 3) \<and>
      check_hour_lt_6 t = Inr False \<and> check_hour_gt_22 t = Inr False \<and>
      rule2_time t (s, l) = Inr (s, l)) \<and>
   (py_get t ''txns_last_1h'' (PInt 0) = Inr n \<and> py_eq n 5 \<longrightarrow>
      \<not> fires_demo t (FallbackScorer_rules ! 5) \<and>
      rule3_velocity fs t (s, l) = Inr (s, l))"
proof (intro conjI impI; elim conjE)
  assume a: "py_get t ''amount'' (PInt 0) = Inr a" and eq: "py_eq a 50000"
  have c: "py_gt a 50000 = Inr False" "py_gt a 10000 = Inr True"
    using py_eq_gt [OF eq] by simp_all
  from a c show "\<not> fires_demo t (FallbackScorer_rules ! 0)"
    and "fires_demo t (FallbackScorer_rules ! 1)"
    by (simp_all add: FallbackScorer_rules_def fires_demo_def)
  from a c show "check_amount_gt_50000 t = Inr False" and "check_amount_gt_10000 t = Inr True"
    by (simp_all add: check_amount_gt_50000_def check_amount_gt_10000_def)
  from a c show "rule1_amount t (s, l) = Inr (s + 30, l @ [''Amount > '' @ rupee_app @ ''10,000''])"
    by (simp add: rule1_amount_def)
next
  assume a: "py_get t ''amount'' (PInt 0) = Inr a" and eq: "py_eq a 10000"
  have c: "py_gt a 50000 = Inr False" "py_gt a 10000 = Inr False"
    using py_eq_gt [OF eq] by simp_all
  from a c show "\<not> fires_demo t (FallbackScorer_rules ! 0)"
    and "\<not> fires_demo t (FallbackScorer_rules ! 1)"
    by (simp_all add: FallbackScorer_rules_def fires_demo_def)
  from a c show "check_amount_gt_50000 t = Inr False" and "check_amount_gt_10000 t = Inr False"
    by (simp_all add: check_amount_gt_50000_def check_amount_gt_10000_def)
  from a c show "rule1_amount t (s, l) = Inr (s, l)"
    by (simp add: rule1_amount_def)
next
  assume h: "py_get t ''hour'' (PInt 12) = Inr h" and eq: "py_eq h 6 \<or> py_eq h 22"
  have c: "py_lt h 6 = Inr False" "py_gt h 22 = Inr False"
    using eq py_eq_lt [of h 6 6] py_eq_gt [of h 6 22] py_eq_lt [of h 22 6] py_eq_gt [of h 22 22]
    by auto
  from h c show "\<not> fires_demo t (FallbackScorer_rules ! 2)"
    and "\<not> fires_demo t (FallbackScorer_rules ! 3)"
    by (simp_all add: FallbackScorer_rules_def fires_demo_def)
  from h c show "check_hour_lt_6 t = Inr False" and "check_hour_gt_22 t = Inr False"
    by (simp_all add: check_hour_lt_6_def check_hour_gt_22_def)
  from h c show "rule2_time t (s, l) = Inr (s, l)"
    by (simp add: rule2_time_def)
next
  assume n: "py_get t ''txns_last_1h'' (PInt 0) = Inr n" and eq: "py_eq n 5"
  have c: "py_gt n 5 = Inr False"
    using py_eq_gt [OF eq] by simp
  from n c show "\<not> fires_demo t (FallbackScorer_rules ! 5)"
    by (simp add: FallbackScorer_rules_def fires_demo_def)
  from n c show "rule3_velocity fs t (s, l) = Inr (s, l)"
    by (simp add: rule3_velocity_def)
qed

theorem thresholds_strict_witness:
  "py_get (Dict [''amount'' \<mapsto> PInt 50000, ''hour'' \<mapsto> PInt 22, ''txns_last_1h'' \<mapsto> PInt 5])
     ''amount'' (PInt 0) = Inr (PInt 50000) \<and>
   py_eq (PInt 50000) 50000 \<and> py_eq (PInt 22) 22 \<and> py_eq (PInt 5) 5 \<and>
   rule1_amount (Dict [''amount'' \<mapsto> PInt 50000, ''hour'' \<mapsto> PInt 22, ''txns_last_1h'' \<mapsto> PInt 5])
     (0, []) = Inr (30, [''Amount > '' @ rupee_app @ ''10,000'']) \<and>
   rule2_time (Dict [''amount'' \<mapsto> PInt 50000, ''hour'' \<mapsto> PInt 22, ''txns_last_1h'' \<mapsto> PInt 5])
     (0, []) = Inr (0, []) \<and>
   rule3_velocity (\<lambda>f. [])
     (Dict [''amount'' \<mapsto> PInt 50000, ''hour'' \<mapsto> PInt 22, ''txns_last_1h'' \<mapsto> PInt 5])
     (0, []) = Inr (0, []) \<and>
   py_get (Dict [''amount'' \<mapsto> PFloat (FVal 10000), ''hour'' \<mapsto> PInt 6]) ''amount'' (PInt 0) =
     Inr (PFloat (FVal 10000)) \<and>
   py_eq (PFloat (FVal 10000)) 10000 \<and> py_eq (PInt 6) 6 \<and>
   rule1_amount (Dict [''amount'' \<mapsto> PFloat (FVal 10000), ''hour'' \<mapsto> PInt 6]) (0, []) =
     Inr (0, []) \<and>
   check_hour_lt_6 (Dict [''amount'' \<mapsto> PFloat (FVal 10000), ''hour'' \<mapsto> PInt 6]) = Inr False"
proof -
  let ?t1 = "Dict [''amount'' \<mapsto> PInt 50000, ''hour'' \<mapsto> PInt 22, ''txns_last_1h'' \<mapsto> PInt 5]"
  let ?t2 = "Dict [''amount'' \<mapsto> PFloat (FVal 10000), ''hour'' \<mapsto> PInt 6]"
  have g1: "py_get ?t1 ''amount'' (PInt 0) = Inr (PInt 50000)"
    "py_get ?t1 ''hour'' (PInt 12) = Inr (PInt 22)"
    "py_get ?t1 ''txns_last_1h'' (PInt 0) = Inr (PInt 5)"
    by simp_all
  have g2: "py_get ?t2 ''amount'' (PInt 0) = Inr (PFloat (FVal 10000))"
    "py_get ?t2 ''hour'' (PInt 12) = Inr (PInt 6)"
    by simp_all
  have eq: "py_eq (PInt 50000) 50000" "py_eq (PInt 22) 22" "py_eq (PInt 5) 5"
    "py_eq (PFloat (FVal 10000)) 10000" "py_eq (PInt 6) 6"
    by simp_all
  from thresholds_strict [of ?t1 "PInt 50000" 0 "[]" "PInt 22" "PInt 5" "\<lambda>f. []"]
    thresholds_strict [of ?t2 "PFloat (FVal 10000)" 0 "[]" "PInt 6" "PInt 0" "\<lambda>f. []"] g1 g2 eq
  show ?thesis
    by simp
qed

end
